theory Spec2Isabelle
  imports Main "HOL-Library.Sublist" "HOL-Library.AList"
begin

text \<open>
  A shallow embedding of the two engines of the langfuse-go instrumentation layer: the
  LangGraph hook, which turns lifecycle events into trace and observation records, and the
  media uploader with its bounded queue, worker pool, deduplication cache and status table.
  Go strings are byte strings (\<open>string\<close>), Go maps are partial functions, struct values
  are records, and the effects on the external client are recorded as a list of calls.
  What the program takes from outside (fresh UUIDs, clock readings, the client's answers,
  the order in which a Go map is iterated) is an explicit argument. Every handler of the
  hook runs under the hook's lock and is one step; every operation of the uploader is one
  step as well, and the threads of the program interleave by the order of these steps.
\<close>

section \<open>Classifier: name matching\<close>

text \<open>\<open>toLowerCase\<close> maps the bytes \<open>A\<close> to \<open>Z\<close> to lower case and leaves every other
  byte as it is.\<close>

definition lower_byte :: "char \<Rightarrow> char" where
  "lower_byte c =
     (if (of_char (CHR ''A'') :: nat) \<le> of_char c \<and> (of_char c :: nat) \<le> of_char (CHR ''Z'')
      then char_of ((of_char c :: nat) + (of_char (CHR ''a'') - of_char (CHR ''A'')))
      else c)"

definition toLowerCase :: "string \<Rightarrow> string" where
  "toLowerCase s = map lower_byte s"

text \<open>\<open>indexOf\<close>: the loop \<open>for i := 0; i <= len(s)-len(substr); i++\<close> over signed
  lengths, returning the first index at which \<open>substr\<close> occurs, or \<open>-1\<close>.\<close>

function indexOf_from :: "string \<Rightarrow> string \<Rightarrow> nat \<Rightarrow> int" where
  "indexOf_from s substr i =
     (if int i \<le> int (length s) - int (length substr)
      then (if take (length substr) (drop i s) = substr then int i
            else indexOf_from s substr (i + 1))
      else - 1)"
  by pat_completeness auto
termination
  by (relation "measure (\<lambda>(s, substr, i). length s + 1 - i)") auto

declare indexOf_from.simps [simp del]

definition indexOf :: "string \<Rightarrow> string \<Rightarrow> int" where
  "indexOf s substr = indexOf_from s substr 0"

definition containsString :: "string \<Rightarrow> string \<Rightarrow> bool" where
  "containsString s substr = (length s \<ge> length substr \<and> indexOf s substr \<ge> 0)"

definition containsIgnoreCase :: "string \<Rightarrow> string \<Rightarrow> bool" where
  "containsIgnoreCase s substr =
     (length s \<ge> length substr \<and>
      (s = substr \<or> containsString (toLowerCase s) (toLowerCase substr)))"

definition aiPatterns :: "string list" where
  "aiPatterns = [''ai'', ''llm'', ''generate'', ''completion'', ''chat'',
                 ''gpt'', ''claude'', ''gemini'', ''openai'']"

text \<open>The loop of \<open>isAIOperation\<close> over the patterns: it returns at the first pattern
  that matches.\<close>

fun any_pattern :: "string \<Rightarrow> string list \<Rightarrow> bool" where
  "any_pattern nodeName [] = False"
| "any_pattern nodeName (pattern # rest) =
     (if containsIgnoreCase nodeName pattern then True else any_pattern nodeName rest)"

definition isAIOperation :: "string \<Rightarrow> bool" where
  "isAIOperation nodeName = any_pattern nodeName aiPatterns"

section \<open>Event-to-record mapping: the LangGraph hook\<close>

subsection \<open>Dynamic values and records\<close>

text \<open>
  Go values of type \<open>interface{}\<close> (event state, metadata values). A
  \<open>map[string]interface{}\<close> is a finite map from keys to such values; a \<open>nil\<close>
  map reads like the empty one. \<open>DFloat m e\<close> stands for the decimal \<open>m * 10^e\<close>.
\<close>

datatype dyn =
    DNil
  | DString string
  | DInt int
  | DBool bool
  | DFloat int int
  | DMap "string \<Rightarrow> dyn option"

text \<open>The type assertions \<open>v.(string)\<close>, \<open>v.(int)\<close> and
  \<open>v.(map[string]interface{})\<close> on the result of a map read: a missing key
  reads as \<open>nil\<close>, on which every assertion fails.\<close>

fun as_string :: "dyn option \<Rightarrow> string option" where
  "as_string (Some (DString s)) = Some s"
| "as_string _ = None"

fun as_int :: "dyn option \<Rightarrow> int option" where
  "as_int (Some (DInt i)) = Some i"
| "as_int _ = None"

fun as_map :: "dyn option \<Rightarrow> (string \<Rightarrow> dyn option) option" where
  "as_map (Some (DMap m)) = Some m"
| "as_map _ = None"

text \<open>The record types of package \<open>model\<close>, with the fields the hook writes.
  Times are instants on an integer time line; a pointer field is an option.\<close>

record Trace =
  trace_ID :: string
  trace_Timestamp :: "int option"
  trace_Name :: string
  trace_UserID :: string
  trace_SessionID :: string
  trace_Input :: dyn
  trace_Output :: dyn
  trace_Metadata :: dyn
  trace_Tags :: "string list"

record Span =
  span_ID :: string
  span_TraceID :: string
  span_Name :: string
  span_StartTime :: "int option"
  span_EndTime :: "int option"
  span_Input :: dyn
  span_Output :: dyn
  span_Metadata :: dyn

record Usage =
  usage_Input :: int
  usage_Output :: int
  usage_Total :: int

record Generation =
  gen_ID :: string
  gen_TraceID :: string
  gen_Name :: string
  gen_StartTime :: "int option"
  gen_EndTime :: "int option"
  gen_Model :: string
  gen_Input :: dyn
  gen_Output :: dyn
  gen_Metadata :: dyn
  gen_ModelParameters :: dyn
  gen_Usage :: Usage

text \<open>The lifecycle events of \<open>graph.TraceSpan\<close>. \<open>ev_Duration\<close> is in
  nanoseconds, \<open>ev_Error\<close> is the error text when an error is attached.\<close>

datatype TraceEvent =
  TraceEventGraphStart | TraceEventGraphEnd | TraceEventNodeStart
  | TraceEventNodeEnd | TraceEventNodeError | TraceEventEdgeTraversal

record TraceSpan =
  ev_ID :: string
  ev_ParentID :: string
  ev_Event :: TraceEvent
  ev_NodeName :: string
  ev_StartTime :: int
  ev_EndTime :: int
  ev_Duration :: int
  ev_State :: dyn
  ev_Error :: "string option"
  ev_Metadata :: "string \<Rightarrow> dyn option"

record Config =
  AutoFlush :: bool
  DefaultMetadata :: "string \<Rightarrow> dyn option"
  TraceName :: string
  SessionID :: string
  UserID :: string
  Tags :: "string list"

text \<open>
  The Langfuse client is the external sink. The hook's field \<open>client\<close> is the list of
  the calls the hook has issued to it, oldest first; an observation call carries the parent
  observation id it was issued with.
\<close>

datatype sink_call =
    TraceCall Trace
  | SpanCall Span "string option"
  | GenerationCall Generation "string option"
  | FlushCall

text \<open>
  The hook. \<open>traces\<close> is an association list with unique keys, because
  \<open>handleNodeStart\<close> iterates over it; \<open>observations\<close> and \<open>parents\<close> are
  only read and written by key.
\<close>

record Hook =
  client :: "sink_call list"
  enabled :: bool
  traces :: "(string \<times> Trace) list"
  observations :: "string \<Rightarrow> string option"
  parents :: "string \<Rightarrow> string option"
  initialInput :: dyn
  config :: Config

text \<open>
  What the environment contributes while one event is handled: the identifiers drawn from
  \<open>uuid.New()\<close> (at most two per handler), the client's answers to the (at most two)
  calls whose result the handler reads (\<open>Inl\<close> an error text, \<open>Inr\<close> the id of the
  record the client returns), and the position at which the iteration over the Go map
  \<open>traces\<close> starts, which the language leaves open.
\<close>

record env =
  uuid1 :: string
  uuid2 :: string
  reply1 :: "string + string"
  reply2 :: "string + string"
  pick :: nat

subsection \<open>Construction\<close>

definition defaultConfig :: Config where
  "defaultConfig =
     \<lparr>AutoFlush = True, DefaultMetadata = Map.empty, TraceName = ''langgraph_workflow'',
      SessionID = '''', UserID = '''', Tags = [''golang'', ''langgraph'']\<rparr>"

definition WithAutoFlush :: "bool \<Rightarrow> Config \<Rightarrow> Config" where
  "WithAutoFlush b c = c\<lparr>AutoFlush := b\<rparr>"

definition WithMetadata :: "(string \<Rightarrow> dyn option) \<Rightarrow> Config \<Rightarrow> Config" where
  "WithMetadata metadata c = c\<lparr>DefaultMetadata := metadata\<rparr>"

definition WithTraceName :: "string \<Rightarrow> Config \<Rightarrow> Config" where
  "WithTraceName name c = c\<lparr>TraceName := name\<rparr>"

definition WithSessionID :: "string \<Rightarrow> Config \<Rightarrow> Config" where
  "WithSessionID i c = c\<lparr>SessionID := i\<rparr>"

definition WithUserID :: "string \<Rightarrow> Config \<Rightarrow> Config" where
  "WithUserID i c = c\<lparr>UserID := i\<rparr>"

definition WithTags :: "string list \<Rightarrow> Config \<Rightarrow> Config" where
  "WithTags tags c = c\<lparr>Tags := tags\<rparr>"

definition NewHookWithClient :: "(Config \<Rightarrow> Config) list \<Rightarrow> Hook" where
  "NewHookWithClient opts =
     \<lparr>client = [], enabled = True, traces = [], observations = Map.empty,
      parents = Map.empty, initialInput = DNil,
      config = fold (\<lambda>opt c. opt c) opts defaultConfig\<rparr>"

text \<open>\<open>NewHook\<close> reads the two credentials from the process environment and returns
  a disabled hook when one of them is empty.\<close>

definition NewHook :: "string \<Rightarrow> string \<Rightarrow> (Config \<Rightarrow> Config) list \<Rightarrow> Hook" where
  "NewHook publicKey secretKey opts =
     (if publicKey = '''' \<or> secretKey = ''''
      then (NewHookWithClient opts)\<lparr>enabled := False\<rparr>
      else NewHookWithClient opts)"

definition SetInitialInput :: "Hook \<Rightarrow> dyn \<Rightarrow> Hook" where
  "SetInitialInput h input = h\<lparr>initialInput := input\<rparr>"

subsection \<open>Helpers of the handlers\<close>

definition call :: "Hook \<Rightarrow> sink_call \<Rightarrow> Hook" where
  "call h c = h\<lparr>client := client h @ [c]\<rparr>"

text \<open>\<open>Duration.Milliseconds()\<close>: integer division that truncates towards zero.\<close>

definition Milliseconds :: "int \<Rightarrow> int" where
  "Milliseconds d = (if d < 0 then - ((- d) div 1000000) else d div 1000000)"

definition extractModel :: "TraceSpan \<Rightarrow> string" where
  "extractModel span =
     (case as_string (ev_Metadata span ''model'') of
        Some modelStr \<Rightarrow> modelStr
      | None \<Rightarrow>
          if containsIgnoreCase (ev_NodeName span) ''gpt'' then ''gpt-3.5-turbo''
          else if containsIgnoreCase (ev_NodeName span) ''claude'' then ''claude-3-sonnet''
          else if containsIgnoreCase (ev_NodeName span) ''gemini'' then ''gemini-pro''
          else ''unknown'')"

definition extractModelParams :: "TraceSpan \<Rightarrow> string \<Rightarrow> dyn option" where
  "extractModelParams span =
     (let params = Map.empty(''temperature'' \<mapsto> DFloat 7 (- 1), ''max_tokens'' \<mapsto> DInt 2048);
          params = (case ev_Metadata span ''temperature'' of
                      Some temp \<Rightarrow> params(''temperature'' \<mapsto> temp) | None \<Rightarrow> params);
          params = (case ev_Metadata span ''max_tokens'' of
                      Some maxTokens \<Rightarrow> params(''max_tokens'' \<mapsto> maxTokens) | None \<Rightarrow> params)
      in params)"

definition extractUsage :: "TraceSpan \<Rightarrow> Usage" where
  "extractUsage span =
     (case as_map (ev_Metadata span ''usage'') of
        Some usage \<Rightarrow>
          (let input = (case as_int (usage ''input'') of Some i \<Rightarrow> i | None \<Rightarrow> 0);
               output = (case as_int (usage ''output'') of Some i \<Rightarrow> i | None \<Rightarrow> 0)
           in \<lparr>usage_Input = input, usage_Output = output, usage_Total = input + output\<rparr>)
      | None \<Rightarrow> \<lparr>usage_Input = 100, usage_Output = 200, usage_Total = 300\<rparr>)"

text \<open>The trace a node event belongs to, looked up through its declared parent.\<close>

definition traceOfParent :: "Hook \<Rightarrow> TraceSpan \<Rightarrow> string" where
  "traceOfParent h span =
     (case map_of (traces h) (ev_ParentID span) of
        Some parentTrace \<Rightarrow> trace_ID parentTrace
      | None \<Rightarrow> '''')"

text \<open>\<open>for _, currentTrace := range h.traces { traceID = currentTrace.ID; break }\<close>:
  the first entry the iteration yields, or the empty id when the table is empty.\<close>

definition firstTrace :: "Hook \<Rightarrow> nat \<Rightarrow> string" where
  "firstTrace h k =
     (case traces h of
        [] \<Rightarrow> ''''
      | t # ts \<Rightarrow> trace_ID (snd ((t # ts) ! (k mod length (t # ts)))))"

definition sdkMetadata :: "TraceSpan \<Rightarrow> (string \<Rightarrow> dyn option) \<Rightarrow> string \<Rightarrow> dyn option" where
  "sdkMetadata span m =
     m(''graph_span_id'' \<mapsto> DString (ev_ID span),
       ''sdk'' \<mapsto> DString ''langfuse-go/langgraph'',
       ''sdk_version'' \<mapsto> DString ''1.0.0'')"

definition nodeMetadata :: "TraceSpan \<Rightarrow> dyn" where
  "nodeMetadata span =
     DMap (Map.empty(''node_name'' \<mapsto> DString (ev_NodeName span),
                     ''graph_span_id'' \<mapsto> DString (ev_ID span)))"

definition endMetadata :: "TraceSpan \<Rightarrow> dyn" where
  "endMetadata span =
     (let metadata = Map.empty(''duration_ms'' \<mapsto> DInt (Milliseconds (ev_Duration span)),
                               ''node_name'' \<mapsto> DString (ev_NodeName span))
      in DMap (case ev_Error span of
                 Some err \<Rightarrow> metadata(''error'' \<mapsto> DString err, ''status'' \<mapsto> DString ''error'')
               | None \<Rightarrow> metadata(''status'' \<mapsto> DString ''completed'')))"

subsection \<open>The handlers\<close>

definition handleGraphStart :: "Hook \<Rightarrow> env \<Rightarrow> TraceSpan \<Rightarrow> Hook" where
  "handleGraphStart h e span =
     (let traceID = uuid1 e;
          now = ev_StartTime span;
          metadata = sdkMetadata span (DefaultMetadata (config h) ++ ev_Metadata span);
          userID = UserID (config h);
          sessionID = SessionID (config h);
          sessionID = (if sessionID = '''' then ''graph_'' @ traceID else sessionID);
          userID = (case as_string (metadata ''user_id'') of
                      Some uid \<Rightarrow> if userID = '''' then uid else userID
                    | None \<Rightarrow> userID);
          sessionID = (case as_string (metadata ''session_id'') of
                         Some sid \<Rightarrow> if sessionID = '''' then sid else sessionID
                       | None \<Rightarrow> sessionID);
          trace = \<lparr>trace_ID = traceID, trace_Timestamp = Some now,
                   trace_Name = TraceName (config h), trace_UserID = userID,
                   trace_SessionID = sessionID, trace_Input = initialInput h,
                   trace_Output = DNil, trace_Metadata = DMap metadata,
                   trace_Tags = Tags (config h)\<rparr>;
          h = call h (TraceCall trace)
      in case reply1 e of
           Inl err \<Rightarrow> h
         | Inr created \<Rightarrow>
            (let h = h\<lparr>traces := AList.update (ev_ID span) trace (traces h)\<rparr>;
                 rootSpanID = uuid2 e;
                 rootSpan = \<lparr>span_ID = rootSpanID, span_TraceID = traceID,
                             span_Name = TraceName (config h), span_StartTime = Some now,
                             span_EndTime = None, span_Input = initialInput h,
                             span_Output = DNil,
                             span_Metadata = DMap (sdkMetadata span Map.empty)\<rparr>;
                 h = call h (SpanCall rootSpan None);
                 rootSpanID = (case reply2 e of
                                 Inl spanErr \<Rightarrow> rootSpanID
                               | Inr createdID \<Rightarrow>
                                   if createdID \<noteq> '''' then createdID else rootSpanID)
             in h\<lparr>observations :=
                     (observations h)(''langgraph_wrapper'' \<mapsto> rootSpanID,
                                      ''default_parent'' \<mapsto> rootSpanID,
                                      ev_ID span \<mapsto> rootSpanID),
                   parents := (parents h)(rootSpanID \<mapsto> '''')\<rparr>))"

definition handleGraphEnd :: "Hook \<Rightarrow> env \<Rightarrow> TraceSpan \<Rightarrow> Hook" where
  "handleGraphEnd h e span =
     (case map_of (traces h) (ev_ID span) of
        None \<Rightarrow> h
      | Some trace \<Rightarrow>
         (let endTime = ev_EndTime span;
              trace = (case trace_Metadata trace of
                         DMap traceMetadata \<Rightarrow>
                           (let m = traceMetadata(''duration_ms'' \<mapsto> DInt (Milliseconds (ev_Duration span)),
                                                  ''status'' \<mapsto> DString ''completed'');
                                m = (case ev_Error span of
                                       Some err \<Rightarrow> m(''error'' \<mapsto> DString err,
                                                      ''status'' \<mapsto> DString ''error'')
                                     | None \<Rightarrow> m)
                            in trace\<lparr>trace_Metadata := DMap m\<rparr>)
                       | _ \<Rightarrow> trace);
              h = h\<lparr>traces := AList.update (ev_ID span) trace (traces h)\<rparr>;
              h = call h (TraceCall
                    \<lparr>trace_ID = trace_ID trace, trace_Timestamp = Some endTime,
                     trace_Name = '''', trace_UserID = '''', trace_SessionID = '''',
                     trace_Input = DNil, trace_Output = ev_State span,
                     trace_Metadata = trace_Metadata trace, trace_Tags = []\<rparr>);
              h = (case observations h (ev_ID span) of
                     Some rootSpanID \<Rightarrow>
                       call h (SpanCall
                         \<lparr>span_ID = rootSpanID, span_TraceID = trace_ID trace,
                          span_Name = TraceName (config h), span_StartTime = None,
                          span_EndTime = Some endTime, span_Input = DNil,
                          span_Output = ev_State span, span_Metadata = DNil\<rparr> None)
                   | None \<Rightarrow> h)
          in if AutoFlush (config h) then call h FlushCall else h))"

definition handleNodeStart :: "Hook \<Rightarrow> env \<Rightarrow> TraceSpan \<Rightarrow> Hook" where
  "handleNodeStart h e span =
     (let traceID = (if ev_ParentID span \<noteq> '''' then traceOfParent h span
                     else firstTrace h (pick e))
      in if traceID = '''' then h
         else
          (let spanID = uuid1 e;
               startTime = ev_StartTime span;
               isAINode = isAIOperation (ev_NodeName span);
               parentObsID = observations h ''default_parent''
           in if isAINode then
                (let generation =
                       \<lparr>gen_ID = spanID, gen_TraceID = traceID,
                        gen_Name = ev_NodeName span @ ''_generation'',
                        gen_StartTime = Some startTime, gen_EndTime = None,
                        gen_Model = extractModel span, gen_Input = ev_State span,
                        gen_Output = DNil, gen_Metadata = nodeMetadata span,
                        gen_ModelParameters = DMap (extractModelParams span),
                        gen_Usage = \<lparr>usage_Input = 0, usage_Output = 0, usage_Total = 0\<rparr>\<rparr>;
                     h = call h (GenerationCall generation parentObsID)
                 in case reply1 e of
                      Inl genErr \<Rightarrow> h
                    | Inr createdID \<Rightarrow>
                       (let spanID = (if createdID \<noteq> '''' then createdID else spanID);
                            h = (case parentObsID of
                                   Some p \<Rightarrow> h\<lparr>parents := (parents h)(spanID \<mapsto> p)\<rparr>
                                 | None \<Rightarrow> h)
                        in h\<lparr>observations := (observations h)(ev_ID span \<mapsto> spanID)\<rparr>))
              else
                (let langfuseSpan =
                       \<lparr>span_ID = spanID, span_TraceID = traceID,
                        span_Name = ev_NodeName span,
                        span_StartTime = Some startTime, span_EndTime = None,
                        span_Input = ev_State span, span_Output = DNil,
                        span_Metadata = nodeMetadata span\<rparr>;
                     h = call h (SpanCall langfuseSpan parentObsID)
                 in case reply1 e of
                      Inl spanErr \<Rightarrow> h
                    | Inr createdID \<Rightarrow>
                       (let spanID = (if createdID \<noteq> '''' then createdID else spanID);
                            h = (case parentObsID of
                                   Some p \<Rightarrow> h\<lparr>parents := (parents h)(spanID \<mapsto> p)\<rparr>
                                 | None \<Rightarrow> h)
                        in h\<lparr>observations := (observations h)(ev_ID span \<mapsto> spanID)\<rparr>))))"

definition handleNodeEnd :: "Hook \<Rightarrow> env \<Rightarrow> TraceSpan \<Rightarrow> Hook" where
  "handleNodeEnd h e span =
     (case observations h (ev_ID span) of
        None \<Rightarrow> h
      | Some obsID \<Rightarrow>
         (let traceID = (if ev_ParentID span \<noteq> '''' then traceOfParent h span else '''')
          in if traceID = '''' then h
             else
              (let endTime = ev_EndTime span;
                   metadata = endMetadata span;
                   isAINode = isAIOperation (ev_NodeName span);
                   parentObsID = (case parents h obsID of
                                    Some parentID \<Rightarrow>
                                      if parentID \<noteq> '''' then Some parentID else None
                                  | None \<Rightarrow> None)
               in if isAINode then
                    call h (GenerationCall
                      \<lparr>gen_ID = obsID, gen_TraceID = traceID,
                       gen_Name = ev_NodeName span @ ''_generation'',
                       gen_StartTime = None, gen_EndTime = Some endTime,
                       gen_Model = '''', gen_Input = DNil, gen_Output = ev_State span,
                       gen_Metadata = metadata, gen_ModelParameters = DNil,
                       gen_Usage = extractUsage span\<rparr> parentObsID)
                  else
                    call h (SpanCall
                      \<lparr>span_ID = obsID, span_TraceID = traceID,
                       span_Name = ev_NodeName span, span_StartTime = None,
                       span_EndTime = Some endTime, span_Input = DNil,
                       span_Output = ev_State span, span_Metadata = metadata\<rparr> parentObsID))))"

definition OnEvent :: "Hook \<Rightarrow> env \<Rightarrow> TraceSpan \<Rightarrow> Hook" where
  "OnEvent h e span =
     (if \<not> enabled h then h
      else case ev_Event span of
             TraceEventGraphStart \<Rightarrow> handleGraphStart h e span
           | TraceEventGraphEnd \<Rightarrow> handleGraphEnd h e span
           | TraceEventNodeStart \<Rightarrow> handleNodeStart h e span
           | TraceEventNodeEnd \<Rightarrow> handleNodeEnd h e span
           | TraceEventNodeError \<Rightarrow> handleNodeEnd h e span
           | TraceEventEdgeTraversal \<Rightarrow> h)"

definition Flush :: "Hook \<Rightarrow> Hook" where
  "Flush h = (if \<not> enabled h then h else call h FlushCall)"

text \<open>A sequence of events, each handled to completion before the next (the handlers hold
  the hook's lock for their whole body).\<close>

fun run :: "Hook \<Rightarrow> (env \<times> TraceSpan) list \<Rightarrow> Hook" where
  "run h [] = h"
| "run h ((e, span) # rest) = run (OnEvent h e span) rest"

subsection \<open>The classifier as the specification words it\<close>

text \<open>
  The specification's classifier: a node is a Generation when some word of the fixed
  vocabulary occurs in its name as a contiguous piece, letters compared without regard to
  case, with nothing required of the neighbouring characters; otherwise it is a Span.
  Two bytes are the same letter when they are equal or are the upper-case and lower-case
  form of one ASCII letter.
\<close>

datatype obs_kind = KSpan | KGeneration

definition is_upper :: "char \<Rightarrow> bool" where
  "is_upper c = ((65::nat) \<le> of_char c \<and> (of_char c :: nat) \<le> 90)"

definition same_letter :: "char \<Rightarrow> char \<Rightarrow> bool" where
  "same_letter a b =
     (a = b \<or>
      (is_upper a \<and> (of_char b :: nat) = of_char a + 32) \<or>
      (is_upper b \<and> (of_char a :: nat) = of_char b + 32))"

definition spec_vocabulary :: "string set" where
  "spec_vocabulary = {''ai'', ''llm'', ''generate'', ''completion'', ''chat'',
                      ''gpt'', ''claude'', ''gemini'', ''openai''}"

definition spec_occurs :: "string \<Rightarrow> string \<Rightarrow> bool" where
  "spec_occurs w name =
     (\<exists>pre mid post. name = pre @ mid @ post \<and> list_all2 same_letter mid w)"

definition spec_classify :: "string \<Rightarrow> obs_kind" where
  "spec_classify name =
     (if \<exists>w \<in> spec_vocabulary. spec_occurs w name then KGeneration else KSpan)"

text \<open>The kind of record a call to the client creates or updates.\<close>

fun call_kind :: "sink_call \<Rightarrow> obs_kind option" where
  "call_kind (SpanCall s p) = Some KSpan"
| "call_kind (GenerationCall g p) = Some KGeneration"
| "call_kind _ = None"

text \<open>The id of the record a call is about.\<close>

fun call_id :: "sink_call \<Rightarrow> string" where
  "call_id (TraceCall t) = trace_ID t"
| "call_id (SpanCall s p) = span_ID s"
| "call_id (GenerationCall g p) = gen_ID g"
| "call_id FlushCall = ''''"

section \<open>Media deduplication and upload pipeline\<close>

subsection \<open>Data\<close>

text \<open>A media item. \<open>media_Hash\<close> is the hex SHA-256 of \<open>media_Data\<close>, computed by
  the constructors; the uploader only compares it.\<close>

record MediaContent =
  media_ID :: string
  media_Data :: string
  media_DataURI :: string
  media_ContentType :: string
  media_FileName :: string
  media_Size :: nat
  media_Hash :: string
  media_UploadedAt :: "int option"
  media_ReferenceID :: string

record MediaUploadTask =
  task_Media :: MediaContent
  task_TraceID :: string
  task_SpanID :: string
  task_Callback :: bool

record MediaUploadStatus =
  st_ID :: string
  st_Status :: string
  st_ReferenceID :: string
  st_Error :: "string option"
  st_StartedAt :: int
  st_CompletedAt :: "int option"

text \<open>A buffered Go channel: its buffer (oldest first), its capacity, and whether it has
  been closed.\<close>

record chan =
  chan_buf :: "MediaUploadTask list"
  chan_cap :: nat
  chan_closed :: bool

text \<open>
  The uploader. \<open>running\<close> holds the tasks that a worker has taken from the queue and
  marked \<open>uploading\<close> but not yet completed; \<open>callbacks\<close> lists the reference ids
  handed to task callbacks so far.
\<close>

record MediaUploader =
  queue :: chan
  workers :: nat
  running :: "MediaUploadTask list"
  uploads :: "string \<Rightarrow> MediaUploadStatus option"
  dedupCache :: "string \<Rightarrow> string option"
  callbacks :: "string list"

text \<open>Errors and panics of the pipeline as values.\<close>

datatype error =
    QueueFull
  | UploadNotFound string
  | UploadFailed "string option"
  | UploadTimeout
  | PanicSendOnClosedChannel
  | PanicCloseOfClosedChannel

text \<open>What the environment contributes to one run of \<open>processUpload\<close>: the identifier
  drawn from \<open>uuid.New()\<close> and the two clock readings.\<close>

record penv =
  p_uuid :: string
  p_now1 :: int
  p_now2 :: int

subsection \<open>Operations\<close>

definition NewMediaUploader :: "int \<Rightarrow> MediaUploader" where
  "NewMediaUploader n =
     (let n = (if n \<le> 0 then 2 else n)
      in \<lparr>queue = \<lparr>chan_buf = [], chan_cap = 100, chan_closed = False\<rparr>,
          workers = nat n, running = [], uploads = Map.empty,
          dedupCache = Map.empty, callbacks = []\<rparr>)"

text \<open>The non-blocking send \<open>select { case mu.queue <- task: ... default: ... }\<close>:
  a send on a closed channel panics, a send on a full buffer falls to \<open>default\<close>.\<close>

definition trySend :: "chan \<Rightarrow> MediaUploadTask \<Rightarrow> error + chan" where
  "trySend c task =
     (if chan_closed c then Inl PanicSendOnClosedChannel
      else if length (chan_buf c) < chan_cap c then Inr (c\<lparr>chan_buf := chan_buf c @ [task]\<rparr>)
      else Inl QueueFull)"

text \<open>\<open>Upload\<close> returns its result, the caller's media object as the call leaves it, and
  the uploader.\<close>

definition Upload ::
  "MediaUploader \<Rightarrow> MediaContent \<Rightarrow> string \<Rightarrow> string \<Rightarrow> int
     \<Rightarrow> (error + string) \<times> MediaContent \<times> MediaUploader" where
  "Upload mu media traceID spanID now =
     (case dedupCache mu (media_Hash media) of
        Some refID \<Rightarrow> (Inr refID, media\<lparr>media_ReferenceID := refID\<rparr>, mu)
      | None \<Rightarrow>
         (let status = \<lparr>st_ID = media_ID media, st_Status = ''queued'',
                         st_ReferenceID = '''', st_Error = None,
                         st_StartedAt = now, st_CompletedAt = None\<rparr>;
              mu = mu\<lparr>uploads := (uploads mu)(media_ID media \<mapsto> status)\<rparr>;
              task = \<lparr>task_Media = media, task_TraceID = traceID,
                       task_SpanID = spanID, task_Callback = False\<rparr>
          in case trySend (queue mu) task of
               Inr q \<Rightarrow> (Inr (media_ID media), media, mu\<lparr>queue := q\<rparr>)
             | Inl err \<Rightarrow> (Inl err, media, mu)))"

text \<open>\<open>UploadWithCallback\<close> sends with a blocking send: \<open>None\<close> is the caller blocked on
  a full buffer.\<close>

definition UploadWithCallback ::
  "MediaUploader \<Rightarrow> MediaContent \<Rightarrow> string \<Rightarrow> string \<Rightarrow> (error + MediaUploader) option" where
  "UploadWithCallback mu media traceID spanID =
     (let task = \<lparr>task_Media = media, task_TraceID = traceID,
                   task_SpanID = spanID, task_Callback = True\<rparr>
      in case trySend (queue mu) task of
           Inr q \<Rightarrow> Some (Inr (mu\<lparr>queue := q\<rparr>))
         | Inl QueueFull \<Rightarrow> None
         | Inl err \<Rightarrow> Some (Inl err))"

text \<open>The two critical sections of \<open>processUpload\<close>: the first marks the status entry
  \<open>uploading\<close>; the second, after the transfer, commits the reference id to the cache
  and marks the entry \<open>completed\<close>.\<close>

definition processUpload_begin :: "MediaUploader \<Rightarrow> MediaUploadTask \<Rightarrow> MediaUploader" where
  "processUpload_begin mu task =
     (case uploads mu (media_ID (task_Media task)) of
        Some status \<Rightarrow>
          mu\<lparr>uploads := (uploads mu)(media_ID (task_Media task) \<mapsto>
                 status\<lparr>st_Status := ''uploading''\<rparr>)\<rparr>
      | None \<Rightarrow> mu)"

definition processUpload_end ::
  "MediaUploader \<Rightarrow> MediaUploadTask \<Rightarrow> penv \<Rightarrow> MediaContent \<times> MediaUploader" where
  "processUpload_end mu task e =
     (let referenceID = ''media_'' @ p_uuid e;
          mu = mu\<lparr>dedupCache := (dedupCache mu)(media_Hash (task_Media task) \<mapsto> referenceID)\<rparr>;
          mu = (case uploads mu (media_ID (task_Media task)) of
                  Some status \<Rightarrow>
                    mu\<lparr>uploads := (uploads mu)(media_ID (task_Media task) \<mapsto>
                          status\<lparr>st_Status := ''completed'', st_ReferenceID := referenceID,
                                 st_CompletedAt := Some (p_now1 e)\<rparr>)\<rparr>
                | None \<Rightarrow> mu);
          media = (task_Media task)\<lparr>media_ReferenceID := referenceID,
                                     media_UploadedAt := Some (p_now2 e)\<rparr>;
          mu = (if task_Callback task then mu\<lparr>callbacks := callbacks mu @ [referenceID]\<rparr>
                else mu)
      in (media, mu))"

definition processUpload ::
  "MediaUploader \<Rightarrow> MediaUploadTask \<Rightarrow> penv \<Rightarrow> MediaContent \<times> MediaUploader" where
  "processUpload mu task e = processUpload_end (processUpload_begin mu task) task e"

text \<open>
  The steps of a worker (\<open>for task := range mu.queue { mu.processUpload(task) }\<close>):
  \<open>worker_take\<close> receives the oldest task and runs the first section, if a worker is
  free and the buffer is not empty; \<open>worker_finish\<close> runs the second section for the
  \<open>i\<close>-th running task.
\<close>

definition worker_take :: "MediaUploader \<Rightarrow> MediaUploader option" where
  "worker_take mu =
     (case chan_buf (queue mu) of
        [] \<Rightarrow> None
      | task # rest \<Rightarrow>
          if length (running mu) < workers mu
          then Some ((processUpload_begin mu task)
                       \<lparr>queue := (queue mu)\<lparr>chan_buf := rest\<rparr>,
                        running := running mu @ [task]\<rparr>)
          else None)"

definition worker_finish :: "MediaUploader \<Rightarrow> nat \<Rightarrow> penv \<Rightarrow> MediaUploader option" where
  "worker_finish mu i e =
     (if i < length (running mu)
      then Some ((snd (processUpload_end mu (running mu ! i) e))
                   \<lparr>running := take i (running mu) @ drop (Suc i) (running mu)\<rparr>)
      else None)"

definition GetStatus :: "MediaUploader \<Rightarrow> string \<Rightarrow> MediaUploadStatus option" where
  "GetStatus mu mediaID = uploads mu mediaID"

text \<open>
  \<open>WaitForUpload\<close> polls. \<open>view k\<close> is the uploader as the \<open>k\<close>-th poll finds it (the
  workers run between polls), \<open>start\<close> the clock at entry; the \<open>k\<close>-th poll happens
  after \<open>k\<close> sleeps of 100 ms. Times are in nanoseconds. The result carries the number of
  sleeps the call went through.
\<close>

definition pollInterval :: int where
  "pollInterval = 100 * 1000000"

function WaitForUpload_loop ::
  "(nat \<Rightarrow> MediaUploader) \<Rightarrow> string \<Rightarrow> int \<Rightarrow> int \<Rightarrow> nat \<Rightarrow> (error + string) \<times> nat" where
  "WaitForUpload_loop view mediaID deadline start k =
     (case GetStatus (view k) mediaID of
        None \<Rightarrow> (Inl (UploadNotFound mediaID), k)
      | Some status \<Rightarrow>
          if st_Status status = ''completed'' then (Inr (st_ReferenceID status), k)
          else if st_Status status = ''failed'' then (Inl (UploadFailed (st_Error status)), k)
          else if start + pollInterval * int k > deadline then (Inl UploadTimeout, k)
          else WaitForUpload_loop view mediaID deadline start (k + 1))"
  by pat_completeness auto
termination
  by (relation "measure (\<lambda>(view, mediaID, deadline, start, k).
        nat (deadline + pollInterval - (start + pollInterval * int k)))")
     (auto simp: pollInterval_def)

declare WaitForUpload_loop.simps [simp del]

definition WaitForUpload ::
  "(nat \<Rightarrow> MediaUploader) \<Rightarrow> string \<Rightarrow> int \<Rightarrow> int \<Rightarrow> (error + string) \<times> nat" where
  "WaitForUpload view mediaID timeout start =
     WaitForUpload_loop view mediaID (start + timeout) start 0"

text \<open>
  \<open>Shutdown\<close> closes the queue and waits for the workers. The workers finish the tasks
  they hold and then drain the buffer; the wait is modelled by the schedule that completes
  the running tasks in order and then processes the buffered tasks one at a time, oldest
  first. \<open>envs\<close> supplies the environment of each completion. Closing a closed channel
  panics.
\<close>

fun finish_all :: "MediaUploader \<Rightarrow> MediaUploadTask list \<Rightarrow> (nat \<Rightarrow> penv) \<Rightarrow> nat \<Rightarrow> MediaUploader" where
  "finish_all mu [] envs k = mu"
| "finish_all mu (task # rest) envs k =
     finish_all (snd (processUpload_end mu task (envs k))) rest envs (Suc k)"

fun drain :: "MediaUploader \<Rightarrow> MediaUploadTask list \<Rightarrow> (nat \<Rightarrow> penv) \<Rightarrow> nat \<Rightarrow> MediaUploader" where
  "drain mu [] envs k = mu"
| "drain mu (task # rest) envs k =
     drain (snd (processUpload mu task (envs k))) rest envs (Suc k)"

definition wait_workers :: "MediaUploader \<Rightarrow> (nat \<Rightarrow> penv) \<Rightarrow> MediaUploader" where
  "wait_workers mu envs =
     (let mu1 = (finish_all mu (running mu) envs 0)\<lparr>running := []\<rparr>;
          mu2 = drain mu1 (chan_buf (queue mu1)) envs (length (running mu))
      in mu2\<lparr>queue := (queue mu2)\<lparr>chan_buf := []\<rparr>\<rparr>)"

definition Shutdown :: "MediaUploader \<Rightarrow> (nat \<Rightarrow> penv) \<Rightarrow> error + MediaUploader" where
  "Shutdown mu envs =
     (if chan_closed (queue mu) then Inl PanicCloseOfClosedChannel
      else Inr (wait_workers (mu\<lparr>queue := (queue mu)\<lparr>chan_closed := True\<rparr>\<rparr>) envs))"

text \<open>A run of non-blocking \<open>Upload\<close> calls with no worker step in between (every worker
  is busy): the results in call order, and the uploader after the last call.\<close>

fun upload_all ::
  "MediaUploader \<Rightarrow> (MediaContent \<times> string \<times> string \<times> int) list
     \<Rightarrow> (error + string) list \<times> MediaUploader" where
  "upload_all mu [] = ([], mu)"
| "upload_all mu ((media, traceID, spanID, now) # rest) =
     (case Upload mu media traceID spanID now of
        (r, media', mu') \<Rightarrow> (case upload_all mu' rest of (rs, mu'') \<Rightarrow> (r # rs, mu'')))"

subsection \<open>Observations on the uploader\<close>

text \<open>The task that \<open>Upload\<close> builds for a call, the status string recorded for a media
  id, the status an entry has once its task has been processed, and the media ids of a
  list of tasks.\<close>

definition task_of_call :: "MediaContent \<times> string \<times> string \<times> int \<Rightarrow> MediaUploadTask" where
  "task_of_call c =
     (case c of (media, traceID, spanID, now) \<Rightarrow>
        \<lparr>task_Media = media, task_TraceID = traceID, task_SpanID = spanID,
         task_Callback = False\<rparr>)"

definition status_of :: "MediaUploader \<Rightarrow> string \<Rightarrow> string option" where
  "status_of mu mediaID = map_option st_Status (uploads mu mediaID)"

definition completed_if_registered :: "MediaUploader \<Rightarrow> string \<Rightarrow> string option" where
  "completed_if_registered mu mediaID =
     (case uploads mu mediaID of None \<Rightarrow> None | Some status \<Rightarrow> Some ''completed'')"

definition task_ids :: "MediaUploadTask list \<Rightarrow> string set" where
  "task_ids ts = set (map (\<lambda>task. media_ID (task_Media task)) ts)"

section \<open>Concrete inputs\<close>

text \<open>Events with only the listed fields set; every other field has its zero value.\<close>

definition mkEvent :: "TraceEvent \<Rightarrow> string \<Rightarrow> string \<Rightarrow> string \<Rightarrow> TraceSpan" where
  "mkEvent ty i parent name =
     \<lparr>ev_ID = i, ev_ParentID = parent, ev_Event = ty, ev_NodeName = name,
      ev_StartTime = 0, ev_EndTime = 0, ev_Duration = 0, ev_State = DNil,
      ev_Error = None, ev_Metadata = Map.empty\<rparr>"

text \<open>An environment in which the client accepts every call and returns the record it was
  given, so that the returned id is the one drawn from \<open>uuid.New()\<close>.\<close>

definition mkEnv :: "string \<Rightarrow> string \<Rightarrow> env" where
  "mkEnv a b = \<lparr>uuid1 = a, uuid2 = b, reply1 = Inr a, reply2 = Inr b, pick = 0\<rparr>"

definition mkMedia :: "string \<Rightarrow> string \<Rightarrow> string \<Rightarrow> MediaContent" where
  "mkMedia i bytes hash =
     \<lparr>media_ID = i, media_Data = bytes, media_DataURI = '''',
      media_ContentType = ''application/octet-stream'', media_FileName = '''',
      media_Size = length bytes, media_Hash = hash, media_UploadedAt = None,
      media_ReferenceID = ''''\<rparr>"

definition mkPenv :: "string \<Rightarrow> penv" where
  "mkPenv u = \<lparr>p_uuid = u, p_now1 = 0, p_now2 = 0\<rparr>"

text \<open>A hook that has seen GraphStart(g1) and NodeStart(n1, parent g1, gpt_summarize).\<close>

definition hook_after_starts :: Hook where
  "hook_after_starts =
     run (NewHookWithClient [])
       [(mkEnv ''trace-1'' ''root-1'', mkEvent TraceEventGraphStart ''g1'' '''' ''''),
        (mkEnv ''obs-1'' '''', mkEvent TraceEventNodeStart ''n1'' ''g1'' ''gpt_summarize'')]"

text \<open>A freshly built hook with the default configuration (no session id configured), and
  a GraphStart event whose metadata carries a session id.\<close>

definition hook_plain :: Hook where
  "hook_plain = NewHookWithClient []"

definition graph_start_with_session :: TraceSpan where
  "graph_start_with_session =
     (mkEvent TraceEventGraphStart ''g1'' '''' '''')
       \<lparr>ev_Metadata := Map.empty(''session_id'' \<mapsto> DString ''sess-42'')\<rparr>"

text \<open>Media items and uploader states: two items with the same content hash and one with
  another; a fresh uploader after one accepted upload, after a worker has taken the task,
  and after the worker has completed it; and an uploader whose queue has been filled by
  100 uploads while no worker ran.\<close>

definition call_one :: "MediaContent \<times> string \<times> string \<times> int" where
  "call_one = (mkMedia ''media-1'' ''abc'' ''hash-abc'', ''trace-1'', '''', 0)"

definition media_a :: MediaContent where
  "media_a = mkMedia ''media-1'' ''abc'' ''hash-abc''"

definition media_b :: MediaContent where
  "media_b = mkMedia ''media-2'' ''abc'' ''hash-abc''"

definition media_c :: MediaContent where
  "media_c = mkMedia ''media-3'' ''xyz'' ''hash-xyz''"

definition uploader_queued :: MediaUploader where
  "uploader_queued = snd (snd (Upload (NewMediaUploader 2) media_a ''trace-1'' '''' 0))"

definition uploader_taken :: MediaUploader where
  "uploader_taken = (case worker_take uploader_queued of Some mu \<Rightarrow> mu | None \<Rightarrow> uploader_queued)"

definition uploader_done :: MediaUploader where
  "uploader_done =
     (case worker_finish uploader_taken 0 (mkPenv ''ref-1'') of
        Some mu \<Rightarrow> mu | None \<Rightarrow> uploader_taken)"

definition uploader_full :: MediaUploader where
  "uploader_full = snd (upload_all (NewMediaUploader 2) (replicate 100 call_one))"

section \<open>Properties of the classifier\<close>

lemma indexOf_from_nonneg_iff:
  "0 \<le> indexOf_from s sub i \<longleftrightarrow>
     (\<exists>j\<ge>i. j + length sub \<le> length s \<and> take (length sub) (drop j s) = sub)"
proof (induction s sub i rule: indexOf_from.induct)
  case (1 s substr i)
  show ?case
  proof (cases "int i \<le> int (length s) - int (length substr)")
    case False
    then have "indexOf_from s substr i = - 1"
      by (subst indexOf_from.simps) simp
    moreover from False
    have "\<not> (\<exists>j\<ge>i. j + length substr \<le> length s \<and> take (length substr) (drop j s) = substr)"
      by auto
    ultimately show ?thesis by simp
  next
    case inr: True
    show ?thesis
    proof (cases "take (length substr) (drop i s) = substr")
      case True
      with inr have "indexOf_from s substr i = int i"
        by (subst indexOf_from.simps) simp
      moreover from inr True
      have "\<exists>j\<ge>i. j + length substr \<le> length s \<and> take (length substr) (drop j s) = substr"
        by (intro exI[of _ i]) auto
      ultimately show ?thesis by simp
    next
      case False
      with inr have eq: "indexOf_from s substr i = indexOf_from s substr (i + 1)"
        by (subst indexOf_from.simps) simp
      have "(\<exists>j\<ge>i. j + length substr \<le> length s \<and> take (length substr) (drop j s) = substr)
            \<longleftrightarrow> (\<exists>j\<ge>i+1. j + length substr \<le> length s \<and> take (length substr) (drop j s) = substr)"
        using False by (metis Suc_eq_plus1 Suc_leI le_neq_implies_less Suc_leD)
      with eq "1.IH"[OF inr False] show ?thesis by simp
    qed
  qed
qed

lemma window_iff_sublist:
  "(\<exists>j. j + length sub \<le> length s \<and> take (length sub) (drop j s) = sub) \<longleftrightarrow> sublist sub s"
proof
  assume "\<exists>j. j + length sub \<le> length s \<and> take (length sub) (drop j s) = sub"
  then obtain j where j: "j + length sub \<le> length s" "take (length sub) (drop j s) = sub"
    by blast
  have "s = take j s @ take (length sub) (drop j s) @ drop (length sub) (drop j s)"
    by (simp only: append_take_drop_id)
  with j show "sublist sub s" unfolding sublist_def by metis
next
  assume "sublist sub s"
  then obtain ps ss where "s = ps @ sub @ ss" unfolding sublist_def by blast
  then have "length ps + length sub \<le> length s \<and> take (length sub) (drop (length ps) s) = sub"
    by simp
  then show "\<exists>j. j + length sub \<le> length s \<and> take (length sub) (drop j s) = sub" by blast
qed

lemma containsString_iff: "containsString s sub \<longleftrightarrow> sublist sub s"
  using indexOf_from_nonneg_iff[of s sub 0] window_iff_sublist[of sub s] sublist_length_le[of sub s]
  by (auto simp: containsString_def indexOf_def)

lemma containsIgnoreCase_iff:
  "containsIgnoreCase s sub \<longleftrightarrow> sublist (toLowerCase sub) (toLowerCase s)"
proof -
  have "sublist (toLowerCase sub) (toLowerCase s) \<Longrightarrow> length sub \<le> length s"
    using sublist_length_le[of "toLowerCase sub" "toLowerCase s"] by (simp add: toLowerCase_def)
  then show ?thesis
    by (auto simp: containsIgnoreCase_def containsString_iff)
qed

lemma lower_byte_alt:
  "lower_byte c = (if is_upper c then char_of ((of_char c :: nat) + 32) else c)"
  by (simp add: lower_byte_def is_upper_def)

lemma of_char_lower_byte:
  "(of_char (lower_byte c) :: nat) = (if is_upper c then of_char c + 32 else of_char c)"
  by (auto simp: lower_byte_alt is_upper_def)

lemma same_letter_iff: "same_letter a b \<longleftrightarrow> lower_byte a = lower_byte b"
proof -
  have "lower_byte a = lower_byte b \<longleftrightarrow> (of_char (lower_byte a) :: nat) = of_char (lower_byte b)"
    by simp
  also have "\<dots> \<longleftrightarrow> same_letter a b"
    unfolding of_char_lower_byte same_letter_def
    by (auto simp: is_upper_def)
  finally show ?thesis by simp
qed

lemma list_all2_same_letter:
  "list_all2 same_letter xs ys \<longleftrightarrow> toLowerCase xs = toLowerCase ys"
  unfolding toLowerCase_def
  by (induction xs arbitrary: ys) (auto simp: list_all2_Cons1 same_letter_iff)

lemma toLowerCase_vocab: "w \<in> spec_vocabulary \<Longrightarrow> toLowerCase w = w"
  by (auto simp: spec_vocabulary_def toLowerCase_def lower_byte_def)

lemma spec_occurs_iff: "spec_occurs w name \<longleftrightarrow> sublist (toLowerCase w) (toLowerCase name)"
proof
  assume "spec_occurs w name"
  then obtain pre mid post where "name = pre @ mid @ post" "toLowerCase mid = toLowerCase w"
    by (auto simp: spec_occurs_def list_all2_same_letter)
  then show "sublist (toLowerCase w) (toLowerCase name)"
    by (auto simp: sublist_def toLowerCase_def)
next
  assume "sublist (toLowerCase w) (toLowerCase name)"
  then obtain ps ss where "map lower_byte name = ps @ (map lower_byte w @ ss)"
    by (auto simp: sublist_def toLowerCase_def)
  then have "\<exists>us vs. name = us @ vs \<and> ps = map lower_byte us
               \<and> map lower_byte w @ ss = map lower_byte vs"
    by (simp only: map_eq_append_conv)
  then obtain pre rest where a: "name = pre @ rest" "map lower_byte rest = map lower_byte w @ ss"
    by auto
  from a(2) have "\<exists>us vs. rest = us @ vs \<and> map lower_byte w = map lower_byte us
                    \<and> ss = map lower_byte vs"
    by (simp only: map_eq_append_conv)
  then obtain mid post where b: "rest = mid @ post" "map lower_byte mid = map lower_byte w"
    by auto
  with a show "spec_occurs w name"
    unfolding spec_occurs_def list_all2_same_letter toLowerCase_def by blast
qed

lemma any_pattern_iff: "any_pattern n ps \<longleftrightarrow> (\<exists>p \<in> set ps. containsIgnoreCase n p)"
  by (induction ps) auto

lemma set_aiPatterns: "set aiPatterns = spec_vocabulary"
  by (simp add: aiPatterns_def spec_vocabulary_def)

lemma isAIOperation_spec: "isAIOperation name \<longleftrightarrow> spec_classify name = KGeneration"
  by (simp add: isAIOperation_def any_pattern_iff set_aiPatterns containsIgnoreCase_iff
      spec_classify_def spec_occurs_iff)

lemma spec_classify_cases:
  "spec_classify name = (if isAIOperation name then KGeneration else KSpan)"
  using isAIOperation_spec[of name] by (cases "spec_classify name") auto

lemmas classifier_eval =
  isAIOperation_def aiPatterns_def containsIgnoreCase_def containsString_def indexOf_def
  indexOf_from.simps toLowerCase_def lower_byte_def

lemma handleNodeStart_kind:
  "handleNodeStart h e span = h \<or>
   (\<exists>c. client (handleNodeStart h e span) = client h @ [c]
        \<and> call_kind c = Some (spec_classify (ev_NodeName span)))"
  by (auto simp: handleNodeStart_def Let_def call_def spec_classify_cases split: sum.splits option.splits)

text \<open>
  Claim C3. The classifier of the hook is the specification's: a node name is classified
  as a Generation exactly when a word of the vocabulary ai, llm, generate, completion,
  chat, gpt, claude, gemini, openai occurs in it as a contiguous piece, compared without
  regard to letter case and with no condition on the neighbouring characters, and as a
  Span otherwise; the record \<open>handleNodeStart\<close> sends to the client, when it sends one,
  is of that kind. In particular generate_response, ai_completion, llm_call, gpt_x,
  claude_x, gemini_x and openai_x are Generations, and process_data and validate_input
  are Spans.
\<close>

theorem C3_classifier:
  "(\<forall>name. isAIOperation name \<longleftrightarrow> spec_classify name = KGeneration)
   \<and> (\<forall>name. \<not> isAIOperation name \<longleftrightarrow> spec_classify name = KSpan)
   \<and> (\<forall>h e span. handleNodeStart h e span = h \<or>
         (\<exists>c. client (handleNodeStart h e span) = client h @ [c]
              \<and> call_kind c = Some (spec_classify (ev_NodeName span))))
   \<and> isAIOperation ''generate_response'' \<and> isAIOperation ''ai_completion''
   \<and> isAIOperation ''llm_call'' \<and> isAIOperation ''gpt_x'' \<and> isAIOperation ''claude_x''
   \<and> isAIOperation ''gemini_x'' \<and> isAIOperation ''openai_x''
   \<and> \<not> isAIOperation ''process_data'' \<and> \<not> isAIOperation ''validate_input''"
proof -
  have a: "\<forall>name. isAIOperation name \<longleftrightarrow> spec_classify name = KGeneration"
    by (simp add: isAIOperation_spec)
  have b: "\<forall>name. \<not> isAIOperation name \<longleftrightarrow> spec_classify name = KSpan"
    by (simp add: spec_classify_cases)
  have c: "\<forall>h e span. handleNodeStart h e span = h \<or>
         (\<exists>c. client (handleNodeStart h e span) = client h @ [c]
              \<and> call_kind c = Some (spec_classify (ev_NodeName span)))"
    using handleNodeStart_kind by blast
  have p1: "isAIOperation ''generate_response''" by (simp add: classifier_eval)
  have p2: "isAIOperation ''ai_completion''" by (simp add: classifier_eval)
  have p3: "isAIOperation ''llm_call''" by (simp add: classifier_eval)
  have p4: "isAIOperation ''gpt_x''" by (simp add: classifier_eval)
  have p5: "isAIOperation ''claude_x''" by (simp add: classifier_eval)
  have p6: "isAIOperation ''gemini_x''" by (simp add: classifier_eval)
  have p7: "isAIOperation ''openai_x''" by (simp add: classifier_eval)
  have n1: "\<not> isAIOperation ''process_data''" by (simp add: classifier_eval)
  have n2: "\<not> isAIOperation ''validate_input''" by (simp add: classifier_eval)
  from a b c p1 p2 p3 p4 p5 p6 p7 n1 n2 show ?thesis by blast
qed

theorem C3_classifier_witness:
  "spec_classify ''My_ChatBot'' = KGeneration \<and> spec_classify ''main'' = KGeneration
   \<and> spec_classify ''fetch_rows'' = KSpan"
proof -
  have "isAIOperation ''My_ChatBot''" by (simp add: classifier_eval char_of_eq_iff)
  moreover have "isAIOperation ''main''" by (simp add: classifier_eval)
  moreover have "\<not> isAIOperation ''fetch_rows''" by (simp add: classifier_eval)
  ultimately show ?thesis using C3_classifier by blast
qed

section \<open>Properties of the hook\<close>

text \<open>
  Claim C4. An end event without a recorded start is a no-op. For a NodeEnd or NodeError
  event whose id has no entry in the observation table, and for a GraphEnd event whose id
  has no entry in the trace table, \<open>OnEvent\<close> returns the hook as it was: no call reaches
  the client, and the tables are unchanged. The handlers return no value, so there is no
  error to return.
\<close>

theorem C4_end_without_start_is_noop:
  assumes "(ev_Event span = TraceEventNodeEnd \<and> observations h (ev_ID span) = None)
         \<or> (ev_Event span = TraceEventNodeError \<and> observations h (ev_ID span) = None)
         \<or> (ev_Event span = TraceEventGraphEnd \<and> map_of (traces h) (ev_ID span) = None)"
  shows "OnEvent h e span = h"
  using assms by (auto simp: OnEvent_def handleNodeEnd_def handleGraphEnd_def)

theorem C4_end_without_start_is_noop_witness:
  "OnEvent (NewHookWithClient []) (mkEnv ''u1'' ''u2'') (mkEvent TraceEventNodeEnd ''n1'' ''g1'' ''gpt_summarize'')
     = NewHookWithClient []
   \<and> OnEvent (NewHookWithClient []) (mkEnv ''u1'' ''u2'') (mkEvent TraceEventNodeError ''n1'' ''g1'' ''gpt_summarize'')
     = NewHookWithClient []
   \<and> OnEvent (NewHookWithClient []) (mkEnv ''u1'' ''u2'') (mkEvent TraceEventGraphEnd ''g1'' '''' '''')
     = NewHookWithClient []"
proof -
  have a: "observations (NewHookWithClient []) ''n1'' = None"
    by (simp add: NewHookWithClient_def)
  have b: "map_of (traces (NewHookWithClient [])) ''g1'' = None"
    by (simp add: NewHookWithClient_def)
  show ?thesis
    using C4_end_without_start_is_noop[of "mkEvent TraceEventNodeEnd ''n1'' ''g1'' ''gpt_summarize''"
            "NewHookWithClient []" "mkEnv ''u1'' ''u2''"]
          C4_end_without_start_is_noop[of "mkEvent TraceEventNodeError ''n1'' ''g1'' ''gpt_summarize''"
            "NewHookWithClient []" "mkEnv ''u1'' ''u2''"]
          C4_end_without_start_is_noop[of "mkEvent TraceEventGraphEnd ''g1'' '''' ''''"
            "NewHookWithClient []" "mkEnv ''u1'' ''u2''"]
          a b
    by (simp add: mkEvent_def)
qed

text \<open>
  Claim C10. A NodeEnd or NodeError event with an empty parent id changes nothing, whether
  or not its id has an observation recorded: the handler resolves the trace only through
  the declared parent, finds none, and returns before any call to the client.
\<close>

theorem C10_node_end_empty_parent_is_noop:
  assumes "ev_Event span = TraceEventNodeEnd \<or> ev_Event span = TraceEventNodeError"
    and "ev_ParentID span = ''''"
  shows "OnEvent h e span = h"
  using assms by (auto simp: OnEvent_def handleNodeEnd_def split: option.splits)

lemma hook_after_starts_tables:
  "enabled hook_after_starts"
  "observations hook_after_starts ''n1'' = Some ''obs-1''"
  "observations hook_after_starts ''default_parent'' = Some ''root-1''"
  "map_of (traces hook_after_starts) ''g1'' \<noteq> None"
  "map_option trace_ID (map_of (traces hook_after_starts) ''g1'') = Some ''trace-1''"
  "length (client hook_after_starts) = 3"
  by (simp_all add: hook_after_starts_def NewHookWithClient_def defaultConfig_def mkEnv_def
      mkEvent_def OnEvent_def handleGraphStart_def handleNodeStart_def traceOfParent_def
      call_def Let_def classifier_eval sdkMetadata_def)

theorem C10_node_end_empty_parent_is_noop_witness:
  "observations hook_after_starts ''n1'' = Some ''obs-1''
   \<and> OnEvent hook_after_starts (mkEnv ''x'' ''y'') (mkEvent TraceEventNodeEnd ''n1'' '''' ''gpt_summarize'')
       = hook_after_starts
   \<and> OnEvent hook_after_starts (mkEnv ''x'' ''y'') (mkEvent TraceEventNodeError ''n1'' '''' ''gpt_summarize'')
       = hook_after_starts"
  using C10_node_end_empty_parent_is_noop[of "mkEvent TraceEventNodeEnd ''n1'' '''' ''gpt_summarize''"
          hook_after_starts "mkEnv ''x'' ''y''"]
        C10_node_end_empty_parent_is_noop[of "mkEvent TraceEventNodeError ''n1'' '''' ''gpt_summarize''"
          hook_after_starts "mkEnv ''x'' ''y''"]
        hook_after_starts_tables(2)
  by (simp add: mkEvent_def)

text \<open>The contrast with NodeStart: with an empty parent id it takes the trace of the
  entry the iteration over the trace table yields first, and issues a call.\<close>

lemma node_start_empty_parent_falls_back:
  "length (client (OnEvent hook_after_starts (mkEnv ''obs-2'' '''')
             (mkEvent TraceEventNodeStart ''n2'' '''' ''process_data''))) = 4"
  by (simp add: hook_after_starts_def NewHookWithClient_def defaultConfig_def mkEnv_def
      mkEvent_def OnEvent_def handleGraphStart_def handleNodeStart_def traceOfParent_def
      firstTrace_def call_def Let_def classifier_eval sdkMetadata_def)

lemma handleGraphStart_trace:
  "\<exists>t rest. client (handleGraphStart h e span) = client h @ TraceCall t # rest
     \<and> trace_ID t = uuid1 e
     \<and> trace_SessionID t =
         (if SessionID (config h) \<noteq> '''' then SessionID (config h) else ''graph_'' @ uuid1 e)
     \<and> trace_UserID t =
         (if UserID (config h) \<noteq> '''' then UserID (config h)
          else case as_string ((DefaultMetadata (config h) ++ ev_Metadata span) ''user_id'') of
                 Some uid \<Rightarrow> uid | None \<Rightarrow> '''')"
  by (auto simp: handleGraphStart_def Let_def call_def sdkMetadata_def
           split: sum.splits option.splits)

text \<open>
  Claim C7, as the code has it. For a GraphStart event handled by an enabled hook, the
  trace sent to the client carries the configured session id when one is configured, and
  otherwise the synthesized id \<open>graph_<trace id>\<close>: the handler fills in the
  synthesized id before it looks at the metadata, so a \<open>session_id\<close> in the metadata is
  never used. The user id is the configured one, else the string \<open>user_id\<close> of the
  merged metadata, else empty.
\<close>

theorem C7_session_id_never_from_metadata:
  assumes "enabled h" and "ev_Event span = TraceEventGraphStart"
  shows "\<exists>t rest. client (OnEvent h e span) = client h @ TraceCall t # rest
     \<and> trace_SessionID t =
         (if SessionID (config h) \<noteq> '''' then SessionID (config h) else ''graph_'' @ uuid1 e)
     \<and> trace_UserID t =
         (if UserID (config h) \<noteq> '''' then UserID (config h)
          else case as_string ((DefaultMetadata (config h) ++ ev_Metadata span) ''user_id'') of
                 Some uid \<Rightarrow> uid | None \<Rightarrow> '''')"
  using assms handleGraphStart_trace[of h e span] by (auto simp: OnEvent_def)

theorem C7_session_id_never_from_metadata_witness:
  "SessionID (config hook_plain) = ''''
   \<and> as_string (ev_Metadata graph_start_with_session ''session_id'') = Some ''sess-42''
   \<and> (\<exists>t rest. client (OnEvent hook_plain (mkEnv ''trace-1'' ''root-1'') graph_start_with_session)
                  = TraceCall t # rest
               \<and> trace_SessionID t = ''graph_trace-1'')"
proof -
  have a: "enabled hook_plain" "SessionID (config hook_plain) = ''''" "client hook_plain = []"
    by (simp_all add: hook_plain_def NewHookWithClient_def defaultConfig_def)
  have b: "ev_Event graph_start_with_session = TraceEventGraphStart"
          "as_string (ev_Metadata graph_start_with_session ''session_id'') = Some ''sess-42''"
    by (simp_all add: graph_start_with_session_def mkEvent_def)
  have c: "uuid1 (mkEnv ''trace-1'' ''root-1'') = ''trace-1''" by (simp add: mkEnv_def)
  from C7_session_id_never_from_metadata[OF a(1) b(1), of "mkEnv ''trace-1'' ''root-1''"] a b c
  show ?thesis by auto
qed

text \<open>
  Claim C8 fails as stated: on a hook that has already recorded an observation for n1, a
  second NodeStart for n1 sends one more call to the client and re-binds n1 to the new
  observation id.
\<close>

theorem C8_duplicate_start_counterexample:
  "ev_Event (mkEvent TraceEventNodeStart ''n1'' ''g1'' ''gpt_summarize'') = TraceEventNodeStart
   \<and> observations hook_after_starts (ev_ID (mkEvent TraceEventNodeStart ''n1'' ''g1'' ''gpt_summarize''))
       = Some ''obs-1''
   \<and> length (client (OnEvent hook_after_starts (mkEnv ''obs-2'' '''')
               (mkEvent TraceEventNodeStart ''n1'' ''g1'' ''gpt_summarize'')))
       = Suc (length (client hook_after_starts))
   \<and> observations (OnEvent hook_after_starts (mkEnv ''obs-2'' '''')
               (mkEvent TraceEventNodeStart ''n1'' ''g1'' ''gpt_summarize''))
        (ev_ID (mkEvent TraceEventNodeStart ''n1'' ''g1'' ''gpt_summarize''))
       = Some ''obs-2''"
  by (simp add: hook_after_starts_def NewHookWithClient_def defaultConfig_def mkEnv_def
      mkEvent_def OnEvent_def handleGraphStart_def handleNodeStart_def traceOfParent_def
      call_def Let_def classifier_eval sdkMetadata_def)

lemma handleNodeStart_resolved:
  assumes "ev_ParentID span \<noteq> ''''" "map_of (traces h) (ev_ParentID span) = Some t"
    and "trace_ID t \<noteq> ''''" "reply1 e = Inr created"
  shows "\<exists>c. client (handleNodeStart h e span) = client h @ [c]
     \<and> call_kind c = Some (spec_classify (ev_NodeName span))
     \<and> call_id c = uuid1 e
     \<and> observations (handleNodeStart h e span)
         = (observations h)(ev_ID span \<mapsto> (if created \<noteq> '''' then created else uuid1 e))"
  using assms
  by (auto simp: handleNodeStart_def traceOfParent_def Let_def call_def spec_classify_cases
           split: option.splits)

text \<open>
  Claim C8, amended. \<open>handleNodeStart\<close> does not look the event's id up: a NodeStart
  whose id already has an observation recorded, whose parent id names a recorded trace and
  whose create call the client accepts, is handled like a first start. Exactly one create
  call is issued, of the kind the classifier gives and with a fresh id, and the event's id
  is bound to the new observation id in place of the old one.
\<close>

theorem C8_duplicate_start_is_processed:
  assumes "enabled h" and "ev_Event span = TraceEventNodeStart"
    and "observations h (ev_ID span) = Some old"
    and "ev_ParentID span \<noteq> ''''" and "map_of (traces h) (ev_ParentID span) = Some t"
    and "trace_ID t \<noteq> ''''" and "reply1 e = Inr created"
  shows "\<exists>c. client (OnEvent h e span) = client h @ [c]
     \<and> call_kind c = Some (spec_classify (ev_NodeName span))
     \<and> call_id c = uuid1 e
     \<and> observations (OnEvent h e span)
         = (observations h)(ev_ID span \<mapsto> (if created \<noteq> '''' then created else uuid1 e))"
  using assms(1,2) handleNodeStart_resolved[OF assms(4-7)] by (simp add: OnEvent_def)

theorem C8_duplicate_start_is_processed_witness:
  "\<exists>c. client (OnEvent hook_after_starts (mkEnv ''obs-2'' '''')
               (mkEvent TraceEventNodeStart ''n1'' ''g1'' ''gpt_summarize''))
          = client hook_after_starts @ [c]
      \<and> call_kind c = Some KGeneration
      \<and> call_id c = ''obs-2''
      \<and> observations (OnEvent hook_after_starts (mkEnv ''obs-2'' '''')
               (mkEvent TraceEventNodeStart ''n1'' ''g1'' ''gpt_summarize''))
          = (observations hook_after_starts)(''n1'' \<mapsto> ''obs-2'')"
proof -
  let ?dup = "mkEvent TraceEventNodeStart ''n1'' ''g1'' ''gpt_summarize''"
  let ?e = "mkEnv ''obs-2'' ''''"
  obtain t where t: "map_of (traces hook_after_starts) ''g1'' = Some t" "trace_ID t = ''trace-1''"
    using hook_after_starts_tables(5) by auto
  have ev: "ev_Event ?dup = TraceEventNodeStart" "ev_ID ?dup = ''n1''"
           "ev_ParentID ?dup = ''g1''" "ev_NodeName ?dup = ''gpt_summarize''"
    by (simp_all add: mkEvent_def)
  have en: "reply1 ?e = Inr ''obs-2''" "uuid1 ?e = ''obs-2''"
    by (simp_all add: mkEnv_def)
  have k: "spec_classify ''gpt_summarize'' = KGeneration"
    by (simp add: spec_classify_cases classifier_eval)
  from C8_duplicate_start_is_processed[of hook_after_starts ?dup "''obs-1''" t ?e "''obs-2''"]
       hook_after_starts_tables(1,2) t ev en k
  show ?thesis by simp
qed

lemma handleGraphStart_accepted:
  assumes "reply1 e = Inr c1"
  defines "rid \<equiv> (case reply2 e of Inl err \<Rightarrow> uuid2 e
                   | Inr c \<Rightarrow> if c \<noteq> '''' then c else uuid2 e)"
  shows "\<exists>t root.
       client (handleGraphStart h e span) = client h @ [TraceCall t, SpanCall root None]
     \<and> trace_ID t = uuid1 e \<and> trace_Timestamp t = Some (ev_StartTime span)
     \<and> span_ID root = uuid2 e \<and> span_TraceID root = uuid1 e
     \<and> span_StartTime root = Some (ev_StartTime span)
     \<and> map_of (traces (handleGraphStart h e span)) (ev_ID span) = Some t
     \<and> observations (handleGraphStart h e span)
         = (observations h)(''langgraph_wrapper'' \<mapsto> rid, ''default_parent'' \<mapsto> rid,
                            ev_ID span \<mapsto> rid)
     \<and> parents (handleGraphStart h e span) = (parents h)(rid \<mapsto> '''')
     \<and> config (handleGraphStart h e span) = config h
     \<and> enabled (handleGraphStart h e span) = enabled h"
  using assms(1) unfolding rid_def
  by (auto simp: handleGraphStart_def Let_def call_def update_conv split: sum.splits)

lemma handleNodeStart_generation:
  assumes "isAIOperation (ev_NodeName span)"
    and "ev_ParentID span \<noteq> ''''" "map_of (traces h) (ev_ParentID span) = Some t"
    and "trace_ID t \<noteq> ''''" "reply1 e = Inr c2"
    and "observations h ''default_parent'' = Some rid"
  defines "gid \<equiv> (if c2 \<noteq> '''' then c2 else uuid1 e)"
  shows "\<exists>g. client (handleNodeStart h e span) = client h @ [GenerationCall g (Some rid)]
     \<and> gen_ID g = uuid1 e \<and> gen_TraceID g = trace_ID t
     \<and> gen_Name g = ev_NodeName span @ ''_generation''
     \<and> gen_Model g = extractModel span
     \<and> gen_StartTime g = Some (ev_StartTime span)
     \<and> traces (handleNodeStart h e span) = traces h
     \<and> observations (handleNodeStart h e span) = (observations h)(ev_ID span \<mapsto> gid)
     \<and> parents (handleNodeStart h e span) = (parents h)(gid \<mapsto> rid)
     \<and> config (handleNodeStart h e span) = config h
     \<and> enabled (handleNodeStart h e span) = enabled h"
  using assms(1-6) unfolding gid_def
  by (auto simp: handleNodeStart_def traceOfParent_def Let_def call_def)

lemma handleNodeEnd_update:
  assumes "observations h (ev_ID span) = Some gid"
  shows "(client (handleNodeEnd h e span) = client h
          \<or> (\<exists>c. client (handleNodeEnd h e span) = client h @ [c] \<and> call_id c = gid
                   \<and> call_kind c \<noteq> None))
     \<and> traces (handleNodeEnd h e span) = traces h
     \<and> observations (handleNodeEnd h e span) = observations h
     \<and> parents (handleNodeEnd h e span) = parents h
     \<and> config (handleNodeEnd h e span) = config h
     \<and> enabled (handleNodeEnd h e span) = enabled h"
  using assms by (auto simp: handleNodeEnd_def Let_def call_def)

lemma handleGraphEnd_update:
  assumes "map_of (traces h) (ev_ID span) = Some tr"
    and "observations h (ev_ID span) = Some rid"
  shows "\<exists>t' root'.
       client (handleGraphEnd h e span)
         = client h @ [TraceCall t', SpanCall root' None]
             @ (if AutoFlush (config h) then [FlushCall] else [])
     \<and> trace_ID t' = trace_ID tr \<and> trace_Timestamp t' = Some (ev_EndTime span)
     \<and> span_ID root' = rid \<and> span_TraceID root' = trace_ID tr
     \<and> span_EndTime root' = Some (ev_EndTime span)
     \<and> observations (handleGraphEnd h e span) = observations h
     \<and> parents (handleGraphEnd h e span) = parents h"
  using assms by (auto simp: handleGraphEnd_def Let_def call_def split: dyn.splits)

lemma extractModel_gpt_summarize:
  assumes "ev_NodeName span = ''gpt_summarize''" "as_string (ev_Metadata span ''model'') = None"
  shows "extractModel span = ''gpt-3.5-turbo''"
  using assms by (simp add: extractModel_def classifier_eval)

lemma isAIOperation_gpt_summarize: "isAIOperation ''gpt_summarize''"
  by (simp add: classifier_eval)

text \<open>
  Claim C1. An enabled hook handles GraphStart(g1), NodeStart(n1, parent g1, name
  gpt_summarize, no model in its metadata), NodeEnd(n1), GraphEnd(g1) in this order, the
  trace id drawn being non-empty and the client accepting the trace and the generation.
  Then the calls added to the client are:
  the creation of one trace; the creation of one root span in that trace, without parent;
  the creation of one generation in that trace, named gpt_summarize_generation, with
  model gpt-3.5-turbo and with the root observation recorded for g1 as its parent; at most
  one update of that generation; one update of the trace and one of the root span; and the
  flush when configured. No other record is created. \<open>rid\<close> and \<open>gid\<close> are the ids
  under which the hook records the root span and the generation (the id the client
  returns, or the drawn one when the client returns none).
\<close>

theorem C1_end_to_end:
  fixes h :: Hook and e1 e2 e3 e4 :: env and gs ns ne ge :: TraceSpan
  assumes en: "enabled h"
    and gs: "ev_Event gs = TraceEventGraphStart" "ev_ID gs = ''g1''"
    and ns: "ev_Event ns = TraceEventNodeStart" "ev_ID ns = ''n1''" "ev_ParentID ns = ''g1''"
            "ev_NodeName ns = ''gpt_summarize''" "as_string (ev_Metadata ns ''model'') = None"
    and ne: "ev_Event ne = TraceEventNodeEnd" "ev_ID ne = ''n1''"
    and ge: "ev_Event ge = TraceEventGraphEnd" "ev_ID ge = ''g1''"
    and acc: "uuid1 e1 \<noteq> ''''" "reply1 e1 = Inr c1" "reply1 e2 = Inr c2"
  defines "rid \<equiv> (case reply2 e1 of Inl err \<Rightarrow> uuid2 e1
                   | Inr c \<Rightarrow> if c \<noteq> '''' then c else uuid2 e1)"
    and "gid \<equiv> (if c2 \<noteq> '''' then c2 else uuid1 e2)"
    and "h' \<equiv> run h [(e1, gs), (e2, ns), (e3, ne), (e4, ge)]"
  shows "\<exists>t root g upd t' root'.
       client h' = client h @ [TraceCall t, SpanCall root None, GenerationCall g (Some rid)]
                     @ upd @ [TraceCall t', SpanCall root' None]
                     @ (if AutoFlush (config h) then [FlushCall] else [])
     \<and> trace_ID t = uuid1 e1 \<and> trace_Timestamp t = Some (ev_StartTime gs)
     \<and> span_ID root = uuid2 e1 \<and> span_TraceID root = uuid1 e1
     \<and> span_StartTime root = Some (ev_StartTime gs)
     \<and> gen_ID g = uuid1 e2 \<and> gen_TraceID g = uuid1 e1
     \<and> gen_StartTime g = Some (ev_StartTime ns)
     \<and> gen_Name g = ''gpt_summarize_generation'' \<and> gen_Model g = ''gpt-3.5-turbo''
     \<and> (upd = [] \<or> (\<exists>c. upd = [c] \<and> call_id c = gid \<and> call_kind c \<noteq> None))
     \<and> trace_ID t' = uuid1 e1 \<and> trace_Timestamp t' = Some (ev_EndTime ge)
     \<and> span_ID root' = rid \<and> span_TraceID root' = uuid1 e1
     \<and> span_EndTime root' = Some (ev_EndTime ge)
     \<and> observations h' ''g1'' = Some rid \<and> observations h' ''default_parent'' = Some rid
     \<and> observations h' ''n1'' = Some gid \<and> parents h' gid = Some rid"
proof -
  let ?h1 = "handleGraphStart h e1 gs"
  let ?h2 = "handleNodeStart ?h1 e2 ns"
  let ?h3 = "handleNodeEnd ?h2 e3 ne"
  let ?h4 = "handleGraphEnd ?h3 e4 ge"
  from handleGraphStart_accepted[OF acc(2), of h gs]
  obtain t root where s1:
    "client ?h1 = client h @ [TraceCall t, SpanCall root None]"
    "trace_ID t = uuid1 e1" "trace_Timestamp t = Some (ev_StartTime gs)"
    "span_ID root = uuid2 e1" "span_TraceID root = uuid1 e1"
    "span_StartTime root = Some (ev_StartTime gs)"
    "map_of (traces ?h1) ''g1'' = Some t"
    "observations ?h1 = (observations h)(''langgraph_wrapper'' \<mapsto> rid,
                           ''default_parent'' \<mapsto> rid, ''g1'' \<mapsto> rid)"
    "config ?h1 = config h" "enabled ?h1 = enabled h"
    unfolding rid_def gs(2) by blast
  have dp1: "observations ?h1 ''default_parent'' = Some rid"
    by (simp add: s1(8))
  have ai: "isAIOperation (ev_NodeName ns)"
    by (simp add: ns(4) isAIOperation_gpt_summarize)
  have par: "ev_ParentID ns \<noteq> ''''" "map_of (traces ?h1) (ev_ParentID ns) = Some t"
            "trace_ID t \<noteq> ''''"
    using s1(2,7) acc(1) by (simp_all add: ns(3))
  from handleNodeStart_generation[OF ai par acc(3) dp1]
  obtain g where s2:
    "client ?h2 = client ?h1 @ [GenerationCall g (Some rid)]"
    "gen_ID g = uuid1 e2" "gen_TraceID g = trace_ID t"
    "gen_Name g = ev_NodeName ns @ ''_generation''"
    "gen_Model g = extractModel ns"
    "gen_StartTime g = Some (ev_StartTime ns)"
    "traces ?h2 = traces ?h1"
    "observations ?h2 = (observations ?h1)(''n1'' \<mapsto> gid)"
    "parents ?h2 = (parents ?h1)(gid \<mapsto> rid)"
    "config ?h2 = config ?h1" "enabled ?h2 = enabled ?h1"
    unfolding gid_def ns(2) by blast
  have o2: "observations ?h2 (ev_ID ne) = Some gid"
    by (simp add: s2(8) ne(2))
  from handleNodeEnd_update[OF o2, of e3]
  have s3:
    "client ?h3 = client ?h2
       \<or> (\<exists>c. client ?h3 = client ?h2 @ [c] \<and> call_id c = gid \<and> call_kind c \<noteq> None)"
    "traces ?h3 = traces ?h2" "observations ?h3 = observations ?h2"
    "parents ?h3 = parents ?h2" "config ?h3 = config ?h2" "enabled ?h3 = enabled ?h2"
    by blast+
  from s3(1) obtain upd where upd:
    "client ?h3 = client ?h2 @ upd"
    "upd = [] \<or> (\<exists>c. upd = [c] \<and> call_id c = gid \<and> call_kind c \<noteq> None)"
    by auto
  have t3: "map_of (traces ?h3) (ev_ID ge) = Some t"
    by (simp add: s3(2) s2(7) s1(7) ge(2))
  have o3: "observations ?h3 (ev_ID ge) = Some rid"
    by (simp add: s3(3) s2(8) s1(8) ge(2))
  from handleGraphEnd_update[OF t3 o3, of e4]
  obtain t' root' where s4:
    "client ?h4 = client ?h3 @ [TraceCall t', SpanCall root' None]
                    @ (if AutoFlush (config ?h3) then [FlushCall] else [])"
    "trace_ID t' = trace_ID t" "trace_Timestamp t' = Some (ev_EndTime ge)"
    "span_ID root' = rid" "span_TraceID root' = trace_ID t"
    "span_EndTime root' = Some (ev_EndTime ge)"
    "observations ?h4 = observations ?h3" "parents ?h4 = parents ?h3"
    by blast
  have run: "h' = ?h4"
    using en s1(10) s2(11) s3(6)
    by (simp add: h'_def OnEvent_def gs(1) ns(1) ne(1) ge(1))
  have cfg: "AutoFlush (config ?h3) = AutoFlush (config h)"
    by (simp add: s3(5) s2(10) s1(9))
  have cl: "client h' = client h @ [TraceCall t, SpanCall root None, GenerationCall g (Some rid)]
                     @ upd @ [TraceCall t', SpanCall root' None]
                     @ (if AutoFlush (config h) then [FlushCall] else [])"
    unfolding run s4(1) upd(1) s2(1) s1(1) cfg by simp
  have obs: "observations h' ''g1'' = Some rid" "observations h' ''default_parent'' = Some rid"
            "observations h' ''n1'' = Some gid" "parents h' gid = Some rid"
    unfolding run s4(7,8) s3(3,4) s2(8,9) s1(8) by simp_all
  have nm: "gen_Name g = ''gpt_summarize_generation''" "gen_Model g = ''gpt-3.5-turbo''"
    using s2(4,5) extractModel_gpt_summarize[OF ns(4,5)] by (simp_all add: ns(4))
  show ?thesis
    using cl s1(2-6) s2(2,3,6) nm upd(2) s4(2-6) obs by auto
qed

theorem C1_end_to_end_witness:
  "\<exists>t root g upd t' root'.
       client (run hook_plain
           [(mkEnv ''trace-1'' ''root-1'', mkEvent TraceEventGraphStart ''g1'' '''' ''''),
            (mkEnv ''obs-1'' '''', mkEvent TraceEventNodeStart ''n1'' ''g1'' ''gpt_summarize''),
            (mkEnv '''' '''', mkEvent TraceEventNodeEnd ''n1'' '''' ''''),
            (mkEnv '''' '''', mkEvent TraceEventGraphEnd ''g1'' '''' '''')])
         = [TraceCall t, SpanCall root None, GenerationCall g (Some ''root-1'')]
             @ upd @ [TraceCall t', SpanCall root' None, FlushCall]
     \<and> trace_ID t = ''trace-1'' \<and> span_ID root = ''root-1'' \<and> gen_ID g = ''obs-1''
     \<and> gen_Name g = ''gpt_summarize_generation'' \<and> gen_Model g = ''gpt-3.5-turbo''
     \<and> trace_ID t' = ''trace-1'' \<and> span_ID root' = ''root-1''"
proof -
  have h: "enabled hook_plain" "client hook_plain = []" "AutoFlush (config hook_plain)"
    by (simp_all add: hook_plain_def NewHookWithClient_def defaultConfig_def)
  from C1_end_to_end[where h = hook_plain
        and gs = "mkEvent TraceEventGraphStart ''g1'' '''' ''''"
        and ns = "mkEvent TraceEventNodeStart ''n1'' ''g1'' ''gpt_summarize''"
        and ne = "mkEvent TraceEventNodeEnd ''n1'' '''' ''''"
        and ge = "mkEvent TraceEventGraphEnd ''g1'' '''' ''''"
        and ?e1.0 = "mkEnv ''trace-1'' ''root-1''" and ?e2.0 = "mkEnv ''obs-1'' ''''"
        and ?e3.0 = "mkEnv '''' ''''" and ?e4.0 = "mkEnv '''' ''''"
        and ?c1.0 = "''trace-1''" and ?c2.0 = "''obs-1''"]
  show ?thesis
    using h by (simp add: mkEvent_def mkEnv_def) blast
qed

section \<open>Properties of the uploader\<close>

text \<open>
  Claim C9. When the media id has no entry in the status table at the first poll,
  \<open>WaitForUpload\<close> returns the not-found error naming that id, for every timeout
  (also zero and negative ones), and it returns from the first poll: the number of
  sleeps it went through is zero.
\<close>

theorem C9_wait_unregistered_fails_at_once:
  assumes "uploads (view 0) mediaID = None"
  shows "WaitForUpload view mediaID timeout start = (Inl (UploadNotFound mediaID), 0)"
  using assms
  by (simp add: WaitForUpload_def GetStatus_def WaitForUpload_loop.simps[of view mediaID _ start 0])

theorem C9_wait_unregistered_fails_at_once_witness:
  "WaitForUpload (\<lambda>k. NewMediaUploader 2) ''media-9'' (5000 * 1000000) 0
     = (Inl (UploadNotFound ''media-9''), 0)
   \<and> WaitForUpload (\<lambda>k. NewMediaUploader 2) ''media-9'' 0 0
     = (Inl (UploadNotFound ''media-9''), 0)
   \<and> WaitForUpload (\<lambda>k. NewMediaUploader 2) ''media-9'' (- 1) 0
     = (Inl (UploadNotFound ''media-9''), 0)"
proof -
  have "uploads (NewMediaUploader 2) ''media-9'' = None"
    by (simp add: NewMediaUploader_def)
  then show ?thesis
    using C9_wait_unregistered_fails_at_once[of "\<lambda>k. NewMediaUploader 2" "''media-9''"]
    by simp
qed

lemma Upload_cases:
  "Upload mu media traceID spanID now =
     (case dedupCache mu (media_Hash media) of
        Some refID \<Rightarrow> (Inr refID, media\<lparr>media_ReferenceID := refID\<rparr>, mu)
      | None \<Rightarrow>
          if chan_closed (queue mu)
          then (Inl PanicSendOnClosedChannel, media,
                mu\<lparr>uploads := (uploads mu)(media_ID media \<mapsto>
                      \<lparr>st_ID = media_ID media, st_Status = ''queued'', st_ReferenceID = '''',
                       st_Error = None, st_StartedAt = now, st_CompletedAt = None\<rparr>)\<rparr>)
          else if length (chan_buf (queue mu)) < chan_cap (queue mu)
          then (Inr (media_ID media), media,
                mu\<lparr>uploads := (uploads mu)(media_ID media \<mapsto>
                      \<lparr>st_ID = media_ID media, st_Status = ''queued'', st_ReferenceID = '''',
                       st_Error = None, st_StartedAt = now, st_CompletedAt = None\<rparr>),
                   queue := (queue mu)\<lparr>chan_buf := chan_buf (queue mu) @
                      [\<lparr>task_Media = media, task_TraceID = traceID, task_SpanID = spanID,
                        task_Callback = False\<rparr>]\<rparr>\<rparr>)
          else (Inl QueueFull, media,
                mu\<lparr>uploads := (uploads mu)(media_ID media \<mapsto>
                      \<lparr>st_ID = media_ID media, st_Status = ''queued'', st_ReferenceID = '''',
                       st_Error = None, st_StartedAt = now, st_CompletedAt = None\<rparr>)\<rparr>))"
  by (simp add: Upload_def trySend_def Let_def split: option.splits)

lemma Upload_frame:
  "dedupCache (snd (snd (Upload mu media t s now))) = dedupCache mu"
  "chan_closed (queue (snd (snd (Upload mu media t s now)))) = chan_closed (queue mu)"
  "chan_cap (queue (snd (snd (Upload mu media t s now)))) = chan_cap (queue mu)"
  "running (snd (snd (Upload mu media t s now))) = running mu"
  by (simp_all add: Upload_cases split: option.splits)

lemma Upload_uncached:
  assumes "dedupCache mu (media_Hash media) = None" "\<not> chan_closed (queue mu)"
  shows "fst (Upload mu media t s now)
           = (if length (chan_buf (queue mu)) < chan_cap (queue mu)
              then Inr (media_ID media) else Inl QueueFull)"
    and "chan_buf (queue (snd (snd (Upload mu media t s now))))
           = (if length (chan_buf (queue mu)) < chan_cap (queue mu)
              then chan_buf (queue mu) @ [\<lparr>task_Media = media, task_TraceID = t,
                     task_SpanID = s, task_Callback = False\<rparr>]
              else chan_buf (queue mu))"
    and "map_option st_Status (uploads (snd (snd (Upload mu media t s now))) (media_ID media))
           = Some ''queued''"
  using assms by (simp_all add: Upload_cases)

lemma upload_all_Cons:
  "upload_all mu ((media, t, s, now) # rest)
     = (fst (Upload mu media t s now) # fst (upload_all (snd (snd (Upload mu media t s now))) rest),
        snd (upload_all (snd (snd (Upload mu media t s now))) rest))"
  by (simp split: prod.splits)

lemma upload_all_frame:
  "dedupCache (snd (upload_all mu calls)) = dedupCache mu
   \<and> chan_closed (queue (snd (upload_all mu calls))) = chan_closed (queue mu)
   \<and> chan_cap (queue (snd (upload_all mu calls))) = chan_cap (queue mu)
   \<and> running (snd (upload_all mu calls)) = running mu"
proof (induction calls arbitrary: mu)
  case Nil
  show ?case by simp
next
  case (Cons c calls)
  obtain media t s now where c: "c = (media, t, s, now)" by (cases c) auto
  show ?case
    unfolding c upload_all_Cons snd_conv
    using Cons.IH[of "snd (snd (Upload mu media t s now))"] Upload_frame[of mu media t s now]
    by simp
qed

lemma upload_all_results:
  assumes "\<not> chan_closed (queue mu)"
    and "\<forall>c \<in> set calls. dedupCache mu (media_Hash (fst c)) = None"
  shows "fst (upload_all mu calls)
           = map (\<lambda>(i, c). if length (chan_buf (queue mu)) + i < chan_cap (queue mu)
                            then Inr (media_ID (fst c)) else Inl QueueFull)
                 (enumerate 0 calls)
       \<and> chan_buf (queue (snd (upload_all mu calls)))
           = chan_buf (queue mu)
               @ map task_of_call (take (chan_cap (queue mu) - length (chan_buf (queue mu))) calls)"
  using assms
proof (induction calls arbitrary: mu)
  case Nil
  show ?case by simp
next
  case (Cons c calls)
  obtain media t s now where c: "c = (media, t, s, now)" by (cases c) auto
  define mu' where "mu' = snd (snd (Upload mu media t s now))"
  have unc: "dedupCache mu (media_Hash media) = None"
    using Cons.prems(2) by (simp add: c)
  have r: "fst (Upload mu media t s now)
             = (if length (chan_buf (queue mu)) < chan_cap (queue mu)
                then Inr (media_ID media) else Inl QueueFull)"
    using Upload_uncached(1)[OF unc Cons.prems(1)] .
  have b: "chan_buf (queue mu')
             = (if length (chan_buf (queue mu)) < chan_cap (queue mu)
                then chan_buf (queue mu) @ [task_of_call c] else chan_buf (queue mu))"
    using Upload_uncached(2)[OF unc Cons.prems(1), of t s now]
    by (simp add: c task_of_call_def mu'_def)
  have fr: "dedupCache mu' = dedupCache mu" "chan_closed (queue mu') = chan_closed (queue mu)"
           "chan_cap (queue mu') = chan_cap (queue mu)"
    using Upload_frame(1-3)[of mu media t s now] by (simp_all add: mu'_def)
  have ih: "fst (upload_all mu' calls)
           = map (\<lambda>(i, c). if length (chan_buf (queue mu')) + i < chan_cap (queue mu)
                            then Inr (media_ID (fst c)) else Inl QueueFull)
                 (enumerate 0 calls)
       \<and> chan_buf (queue (snd (upload_all mu' calls)))
           = chan_buf (queue mu')
               @ map task_of_call (take (chan_cap (queue mu) - length (chan_buf (queue mu'))) calls)"
    using Cons.IH[of mu'] Cons.prems fr by simp
  have en: "enumerate 0 (c # calls) = (0, c) # map (apfst Suc) (enumerate 0 calls)"
    by (simp add: enumerate_Suc_eq)
  have split: "upload_all mu (c # calls)
                 = (fst (Upload mu media t s now) # fst (upload_all mu' calls),
                    snd (upload_all mu' calls))"
    unfolding c upload_all_Cons mu'_def ..
  let ?f = "\<lambda>(i, c). if length (chan_buf (queue mu)) + i < chan_cap (queue mu)
                            then Inr (media_ID (fst c)) else Inl QueueFull"
  have rhs: "map ?f (enumerate 0 (c # calls))
               = ?f (0, c) # map (\<lambda>p. ?f (Suc (fst p), snd p)) (enumerate 0 calls)"
    unfolding en by (simp add: comp_def case_prod_unfold)
  have lhs: "fst (upload_all mu (c # calls))
               = fst (Upload mu media t s now) # fst (upload_all mu' calls)"
    unfolding split by simp
  have st: "chan_buf (queue (snd (upload_all mu (c # calls))))
              = chan_buf (queue (snd (upload_all mu' calls)))"
    unfolding split by simp
  show ?case
  proof (cases "length (chan_buf (queue mu)) < chan_cap (queue mu)")
    case True
    then obtain d where d: "chan_cap (queue mu) - length (chan_buf (queue mu)) = Suc d"
      by (metis Suc_diff_Suc)
    have d': "chan_cap (queue mu) - Suc (length (chan_buf (queue mu))) = d"
      using d by simp
    from True have b': "chan_buf (queue mu') = chan_buf (queue mu) @ [task_of_call c]"
      using b by simp
    have "fst (upload_all mu (c # calls)) = map ?f (enumerate 0 (c # calls))"
      unfolding lhs rhs using True ih r
      by (simp add: b' c case_prod_unfold)
    moreover have "chan_buf (queue (snd (upload_all mu (c # calls))))
           = chan_buf (queue mu)
               @ map task_of_call (take (chan_cap (queue mu) - length (chan_buf (queue mu))) (c # calls))"
      unfolding st using ih by (simp add: b' d d')
    ultimately show ?thesis by blast
  next
    case False
    from False have b': "chan_buf (queue mu') = chan_buf (queue mu)"
      using b by simp
    have "fst (upload_all mu (c # calls)) = map ?f (enumerate 0 (c # calls))"
      unfolding lhs rhs using False ih r
      by (simp add: b' c case_prod_unfold)
    moreover have "chan_buf (queue (snd (upload_all mu (c # calls))))
           = chan_buf (queue mu)
               @ map task_of_call (take (chan_cap (queue mu) - length (chan_buf (queue mu))) (c # calls))"
      unfolding st using ih False by (simp add: b')
    ultimately show ?thesis by blast
  qed
qed

text \<open>
  Claim C5. A run of non-blocking \<open>Upload\<close> calls on an open queue, for contents whose
  hash is not cached, with no worker step in between: each call returns, the call at
  position \<open>i\<close> returns the media id when the buffer still has room for it and the
  queue-full error otherwise, and the buffer afterwards holds exactly the earlier tasks
  followed by the tasks of the accepted calls, in order. So every call made at capacity
  is answered with the saturation error (the case of a single call is the run of length
  one), and no accepted task is lost. \<open>Upload\<close> is a total function: no call waits.
\<close>

theorem C5_saturation_is_reported:
  assumes "\<not> chan_closed (queue mu)"
    and "\<forall>c \<in> set calls. dedupCache mu (media_Hash (fst c)) = None"
  shows "fst (upload_all mu calls)
           = map (\<lambda>(i, c). if length (chan_buf (queue mu)) + i < chan_cap (queue mu)
                            then Inr (media_ID (fst c)) else Inl QueueFull)
                 (enumerate 0 calls)
       \<and> chan_buf (queue (snd (upload_all mu calls)))
           = chan_buf (queue mu)
               @ map task_of_call (take (chan_cap (queue mu) - length (chan_buf (queue mu))) calls)"
  using upload_all_results[OF assms] .

theorem C5_saturation_is_reported_witness:
  "fst (upload_all (NewMediaUploader 2) (replicate 102 call_one)) ! 99 = Inr ''media-1''
   \<and> fst (upload_all (NewMediaUploader 2) (replicate 102 call_one)) ! 100 = Inl QueueFull
   \<and> fst (upload_all (NewMediaUploader 2) (replicate 102 call_one)) ! 101 = Inl QueueFull
   \<and> length (chan_buf (queue (snd (upload_all (NewMediaUploader 2) (replicate 102 call_one))))) = 100"
proof -
  have a: "\<not> chan_closed (queue (NewMediaUploader 2))"
          "chan_buf (queue (NewMediaUploader 2)) = []"
          "chan_cap (queue (NewMediaUploader 2)) = 100"
    by (simp_all add: NewMediaUploader_def)
  have b: "\<forall>c \<in> set (replicate 102 call_one).
             dedupCache (NewMediaUploader 2) (media_Hash (fst c)) = None"
    by (simp add: NewMediaUploader_def)
  have c: "media_ID (fst call_one) = ''media-1''"
    by (simp add: call_one_def mkMedia_def)
  from C5_saturation_is_reported[OF a(1) b] show ?thesis
    by (simp add: a c nth_enumerate_eq)
qed

lemma processUpload_end_status:
  "status_of (snd (processUpload_end mu task e)) mediaID
     = (if mediaID = media_ID (task_Media task) then completed_if_registered mu mediaID
        else status_of mu mediaID)"
  by (simp add: processUpload_end_def status_of_def completed_if_registered_def Let_def
           split: option.splits)

lemma processUpload_end_frame:
  "queue (snd (processUpload_end mu task e)) = queue mu"
  "running (snd (processUpload_end mu task e)) = running mu"
  "dom (uploads (snd (processUpload_end mu task e))) = dom (uploads mu)"
  by (auto simp: processUpload_end_def Let_def split: option.splits if_splits)

lemma processUpload_begin_frame:
  "queue (processUpload_begin mu task) = queue mu"
  "running (processUpload_begin mu task) = running mu"
  "dedupCache (processUpload_begin mu task) = dedupCache mu"
  "dom (uploads (processUpload_begin mu task)) = dom (uploads mu)"
  by (auto simp: processUpload_begin_def split: option.splits if_splits)

lemma completed_if_registered_dom:
  "dom (uploads mu') = dom (uploads mu)
     \<Longrightarrow> completed_if_registered mu' mediaID = completed_if_registered mu mediaID"
  by (auto simp: completed_if_registered_def split: option.splits)

lemma processUpload_status:
  "status_of (snd (processUpload mu task e)) mediaID
     = (if mediaID = media_ID (task_Media task) then completed_if_registered mu mediaID
        else status_of mu mediaID)"
proof -
  have "status_of (processUpload_begin mu task) mediaID = status_of mu mediaID"
    if "mediaID \<noteq> media_ID (task_Media task)"
    using that by (simp add: processUpload_begin_def status_of_def split: option.splits)
  then show ?thesis
    by (simp add: processUpload_def processUpload_end_status
        completed_if_registered_dom[OF processUpload_begin_frame(4)])
qed

lemma processUpload_frame:
  "queue (snd (processUpload mu task e)) = queue mu"
  "running (snd (processUpload mu task e)) = running mu"
  "dom (uploads (snd (processUpload mu task e))) = dom (uploads mu)"
  by (simp_all add: processUpload_def processUpload_end_frame processUpload_begin_frame)

lemma status_completed_stays:
  "completed_if_registered mu mediaID = (case status_of mu mediaID of None \<Rightarrow> None
                                         | Some s \<Rightarrow> Some ''completed'')"
  by (simp add: completed_if_registered_def status_of_def split: option.splits)

lemma finish_all_status:
  "status_of (finish_all mu ts envs k) mediaID
     = (if mediaID \<in> task_ids ts then completed_if_registered mu mediaID
        else status_of mu mediaID)
   \<and> queue (finish_all mu ts envs k) = queue mu
   \<and> running (finish_all mu ts envs k) = running mu
   \<and> dom (uploads (finish_all mu ts envs k)) = dom (uploads mu)"
proof (induction ts arbitrary: mu k)
  case Nil
  show ?case by (simp add: task_ids_def)
next
  case (Cons task ts)
  let ?mu1 = "snd (processUpload_end mu task (envs k))"
  have d: "completed_if_registered ?mu1 mediaID = completed_if_registered mu mediaID"
    by (rule completed_if_registered_dom) (rule processUpload_end_frame(3))
  show ?case
    using Cons.IH[of ?mu1 "Suc k"] processUpload_end_status[of mu task "envs k" mediaID]
    by (auto simp: d task_ids_def processUpload_end_frame status_completed_stays
             split: option.splits)
qed

lemma drain_status:
  "status_of (drain mu ts envs k) mediaID
     = (if mediaID \<in> task_ids ts then completed_if_registered mu mediaID
        else status_of mu mediaID)
   \<and> queue (drain mu ts envs k) = queue mu
   \<and> running (drain mu ts envs k) = running mu
   \<and> dom (uploads (drain mu ts envs k)) = dom (uploads mu)"
proof (induction ts arbitrary: mu k)
  case Nil
  show ?case by (simp add: task_ids_def)
next
  case (Cons task ts)
  let ?mu1 = "snd (processUpload mu task (envs k))"
  have d: "completed_if_registered ?mu1 mediaID = completed_if_registered mu mediaID"
    by (rule completed_if_registered_dom) (rule processUpload_frame(3))
  show ?case
    using Cons.IH[of ?mu1 "Suc k"] processUpload_status[of mu task "envs k" mediaID]
    by (auto simp: d task_ids_def processUpload_frame status_completed_stays
             split: option.splits)
qed

lemma Shutdown_status:
  assumes "\<not> chan_closed (queue mu)"
  shows "\<exists>mu'. Shutdown mu envs = Inr mu'
     \<and> chan_closed (queue mu') \<and> chan_buf (queue mu') = [] \<and> running mu' = []
     \<and> (\<forall>mediaID. status_of mu' mediaID
           = (if mediaID \<in> task_ids (running mu @ chan_buf (queue mu))
              then completed_if_registered mu mediaID else status_of mu mediaID))"
proof -
  let ?c = "mu\<lparr>queue := (queue mu)\<lparr>chan_closed := True\<rparr>\<rparr>"
  let ?mu1 = "(finish_all ?c (running mu) envs 0)\<lparr>running := []\<rparr>"
  let ?mu2 = "drain ?mu1 (chan_buf (queue mu)) envs (length (running mu))"
  have c: "status_of ?c = status_of mu" "completed_if_registered ?c = completed_if_registered mu"
    by (auto simp: status_of_def completed_if_registered_def fun_eq_iff)
  have f: "\<And>i. status_of ?mu1 i
             = (if i \<in> task_ids (running mu) then completed_if_registered mu i
                else status_of mu i)"
          "queue ?mu1 = queue ?c" "dom (uploads ?mu1) = dom (uploads mu)"
    using finish_all_status[of ?c "running mu" envs 0]
    by (simp_all add: c status_of_def)
  have f3: "\<And>i. completed_if_registered ?mu1 i = completed_if_registered mu i"
    by (rule completed_if_registered_dom) (rule f(3))
  have d: "\<And>i. status_of ?mu2 i
             = (if i \<in> task_ids (chan_buf (queue mu)) then completed_if_registered ?mu1 i
                else status_of ?mu1 i)"
          "queue ?mu2 = queue ?mu1" "running ?mu2 = running ?mu1"
    using drain_status[of ?mu1 "chan_buf (queue mu)" envs "length (running mu)"]
    by simp_all
  have w: "wait_workers ?c envs = ?mu2\<lparr>queue := (queue ?mu2)\<lparr>chan_buf := []\<rparr>\<rparr>"
    by (simp add: wait_workers_def Let_def f(2))
  have s: "Shutdown mu envs = Inr (wait_workers ?c envs)"
    using assms by (simp add: Shutdown_def)
  have st: "\<And>i. status_of (wait_workers ?c envs) i = status_of ?mu2 i"
    unfolding w by (simp add: status_of_def)
  have ids: "task_ids (running mu @ chan_buf (queue mu))
               = task_ids (running mu) \<union> task_ids (chan_buf (queue mu))"
    by (simp add: task_ids_def)
  show ?thesis
    unfolding s
    apply (intro exI[of _ "wait_workers ?c envs"] conjI allI)
        apply simp
       apply (simp add: w d(2) f(2))
      apply (simp add: w)
     apply (simp add: w d(3))
    apply (simp add: st d(1) f(1) f3 ids status_completed_stays split: option.splits)
    done
qed

text \<open>The fast path and the commit it relies on, for any uploader state: a cached hash
  is answered from the cache and nothing changes; completing a task caches its reference
  id under the task's hash.\<close>

lemma Upload_cached:
  assumes "dedupCache mu (media_Hash media) = Some refID"
  shows "Upload mu media t s now = (Inr refID, media\<lparr>media_ReferenceID := refID\<rparr>, mu)"
  using assms by (simp add: Upload_def)

lemma processUpload_end_commits:
  "dedupCache (snd (processUpload_end mu task e)) (media_Hash (task_Media task))
     = Some (''media_'' @ p_uuid e)"
  by (simp add: processUpload_end_def Let_def split: option.splits)

lemmas uploader_eval =
  NewMediaUploader_def Upload_def trySend_def worker_take_def worker_finish_def
  processUpload_begin_def processUpload_end_def mkMedia_def mkPenv_def Let_def
  media_a_def media_b_def uploader_queued_def uploader_taken_def uploader_done_def
  status_of_def

text \<open>
  Claim C2 fails as stated: of two sequential uploads of items with the same hash, the
  first returns the item's own id and the second the reference id committed by the worker;
  the two results differ.
\<close>

theorem C2_same_reference_counterexample:
  "media_Hash media_b = media_Hash media_a
   \<and> fst (Upload (NewMediaUploader 2) media_a ''trace-1'' '''' 0) = Inr ''media-1''
   \<and> worker_take uploader_queued = Some uploader_taken
   \<and> worker_finish uploader_taken 0 (mkPenv ''ref-1'') = Some uploader_done
   \<and> status_of uploader_done ''media-1'' = Some ''completed''
   \<and> fst (Upload uploader_done media_b ''trace-1'' '''' 1) = Inr ''media_ref-1''
   \<and> fst (Upload (NewMediaUploader 2) media_a ''trace-1'' '''' 0)
       \<noteq> fst (Upload uploader_done media_b ''trace-1'' '''' 1)"
  by (simp add: uploader_eval)

text \<open>
  Claim C2, amended. On an open uploader with an empty queue, idle workers and no cache
  entry for the hash: the first \<open>Upload\<close> is accepted and returns the media item's own
  id; a worker takes the task and completes it, which commits the reference id for the
  hash and marks the item's status entry completed with that reference id; the second
  \<open>Upload\<close>, of an item with the same hash, returns that committed reference id, sets
  it on the caller's item, and leaves the uploader exactly as it was, so no task is
  enqueued and no status entry is written: the queue is empty and no task is running, and
  the one task processed is all the work there is.
\<close>

theorem C2_second_upload_hits_cache:
  assumes "dedupCache mu (media_Hash m1) = None" and "\<not> chan_closed (queue mu)"
    and "chan_buf (queue mu) = []" and "running mu = []"
    and "0 < chan_cap (queue mu)" and "0 < workers mu"
    and "media_Hash m2 = media_Hash m1"
  shows "\<exists>mu1 mu2 mu3 st.
       Upload mu m1 t1 s1 now1 = (Inr (media_ID m1), m1, mu1)
     \<and> worker_take mu1 = Some mu2
     \<and> worker_finish mu2 0 e = Some mu3
     \<and> Upload mu3 m2 t2 s2 now2
         = (Inr (''media_'' @ p_uuid e), m2\<lparr>media_ReferenceID := ''media_'' @ p_uuid e\<rparr>, mu3)
     \<and> chan_buf (queue mu3) = [] \<and> running mu3 = []
     \<and> uploads mu3 (media_ID m1) = Some st
     \<and> st_Status st = ''completed'' \<and> st_ReferenceID st = ''media_'' @ p_uuid e"
  using assms
  by (simp add: Upload_def trySend_def worker_take_def worker_finish_def
      processUpload_begin_def processUpload_end_def Let_def)

theorem C2_second_upload_hits_cache_witness:
  "\<exists>mu1 mu2 mu3 st.
       Upload (NewMediaUploader 2) media_a ''trace-1'' '''' 0 = (Inr ''media-1'', media_a, mu1)
     \<and> worker_take mu1 = Some mu2
     \<and> worker_finish mu2 0 (mkPenv ''ref-1'') = Some mu3
     \<and> Upload mu3 media_b ''trace-1'' '''' 1
         = (Inr ''media_ref-1'', media_b\<lparr>media_ReferenceID := ''media_ref-1''\<rparr>, mu3)
     \<and> chan_buf (queue mu3) = [] \<and> running mu3 = []
     \<and> uploads mu3 ''media-1'' = Some st
     \<and> st_Status st = ''completed'' \<and> st_ReferenceID st = ''media_ref-1''"
proof -
  have a: "dedupCache (NewMediaUploader 2) (media_Hash media_a) = None"
          "\<not> chan_closed (queue (NewMediaUploader 2))"
          "chan_buf (queue (NewMediaUploader 2)) = []" "running (NewMediaUploader 2) = []"
          "0 < chan_cap (queue (NewMediaUploader 2))" "0 < workers (NewMediaUploader 2)"
          "media_Hash media_b = media_Hash media_a"
    by (simp_all add: NewMediaUploader_def media_a_def media_b_def mkMedia_def)
  have b: "media_ID media_a = ''media-1''" "p_uuid (mkPenv ''ref-1'') = ''ref-1''"
    by (simp_all add: media_a_def mkMedia_def mkPenv_def)
  from C2_second_upload_hits_cache[OF a, of "''trace-1''" "''''" 0 "mkPenv ''ref-1''" "''trace-1''" "''''" 1]
  show ?thesis by (simp add: b)
qed

text \<open>
  Claim C6, evaluated on the code. \<open>Upload\<close> writes the status entry \<open>queued\<close>
  before it tries to enqueue, and leaves it when the queue is full. For an upload rejected
  at capacity, whose media id belongs to no queued or running task, \<open>Shutdown\<close>
  afterwards closes the queue and drains every queued and running task, and the entry of
  the rejected upload is still \<open>queued\<close> when it returns.
\<close>

theorem C6_rejected_upload_stays_queued:
  assumes "\<not> chan_closed (queue mu)" and "dedupCache mu (media_Hash media) = None"
    and "chan_cap (queue mu) \<le> length (chan_buf (queue mu))"
    and "media_ID media \<notin> task_ids (running mu @ chan_buf (queue mu))"
  shows "fst (Upload mu media t s now) = Inl QueueFull
     \<and> (\<exists>mu'. Shutdown (snd (snd (Upload mu media t s now))) envs = Inr mu'
            \<and> chan_closed (queue mu') \<and> chan_buf (queue mu') = [] \<and> running mu' = []
            \<and> status_of mu' (media_ID media) = Some ''queued'')"
proof -
  let ?mu1 = "snd (snd (Upload mu media t s now))"
  have r: "fst (Upload mu media t s now) = Inl QueueFull"
    using Upload_uncached(1)[OF assms(2,1)] assms(3) by simp
  have b: "chan_buf (queue ?mu1) = chan_buf (queue mu)"
    using Upload_uncached(2)[OF assms(2,1), of t s now] assms(3) by simp
  have q: "status_of ?mu1 (media_ID media) = Some ''queued''"
    using Upload_uncached(3)[OF assms(2,1)] by (simp add: status_of_def)
  have o: "\<not> chan_closed (queue ?mu1)" "running ?mu1 = running mu"
    using Upload_frame(2,4)[of mu media t s now] assms(1) by simp_all
  from Shutdown_status[OF o(1), of envs]
  obtain mu' where m: "Shutdown ?mu1 envs = Inr mu'" "chan_closed (queue mu')"
      "chan_buf (queue mu') = []" "running mu' = []"
      "status_of mu' (media_ID media)
         = (if media_ID media \<in> task_ids (running ?mu1 @ chan_buf (queue ?mu1))
            then completed_if_registered ?mu1 (media_ID media)
            else status_of ?mu1 (media_ID media))"
    by blast
  from m(5) assms(4) have "status_of mu' (media_ID media) = Some ''queued''"
    by (simp add: o(2) b q)
  with r m(1-4) show ?thesis by blast
qed

lemma uploader_full_state:
  "\<not> chan_closed (queue uploader_full)"
  "dedupCache uploader_full = Map.empty"
  "chan_cap (queue uploader_full) = 100"
  "chan_buf (queue uploader_full) = replicate 100 (task_of_call call_one)"
  "running uploader_full = []"
proof -
  have a: "\<not> chan_closed (queue (NewMediaUploader 2))"
          "chan_buf (queue (NewMediaUploader 2)) = []"
          "chan_cap (queue (NewMediaUploader 2)) = 100"
          "dedupCache (NewMediaUploader 2) = Map.empty"
          "running (NewMediaUploader 2) = []"
    by (simp_all add: NewMediaUploader_def)
  have b: "\<forall>c \<in> set (replicate 100 call_one).
             dedupCache (NewMediaUploader 2) (media_Hash (fst c)) = None"
    by (simp add: NewMediaUploader_def)
  show "\<not> chan_closed (queue uploader_full)" "dedupCache uploader_full = Map.empty"
       "chan_cap (queue uploader_full) = 100" "running uploader_full = []"
    using upload_all_frame[of "NewMediaUploader 2" "replicate 100 call_one"] a
    by (simp_all add: uploader_full_def)
  show "chan_buf (queue uploader_full) = replicate 100 (task_of_call call_one)"
    using upload_all_results[OF a(1) b] a by (simp add: uploader_full_def)
qed

theorem C6_rejected_upload_stays_queued_witness:
  "fst (Upload uploader_full media_c ''trace-1'' '''' 7) = Inl QueueFull
   \<and> (\<exists>mu'. Shutdown (snd (snd (Upload uploader_full media_c ''trace-1'' '''' 7)))
               (\<lambda>k. mkPenv ''ref'') = Inr mu'
          \<and> chan_closed (queue mu') \<and> chan_buf (queue mu') = [] \<and> running mu' = []
          \<and> status_of mu' ''media-3'' = Some ''queued'')"
proof -
  have a: "dedupCache uploader_full (media_Hash media_c) = None"
    by (simp add: uploader_full_state)
  have b: "chan_cap (queue uploader_full) \<le> length (chan_buf (queue uploader_full))"
    by (simp add: uploader_full_state)
  have c: "media_ID media_c \<notin> task_ids (running uploader_full @ chan_buf (queue uploader_full))"
    by (simp add: uploader_full_state task_ids_def task_of_call_def call_one_def
        media_c_def mkMedia_def)
  have d: "media_ID media_c = ''media-3''"
    by (simp add: media_c_def mkMedia_def)
  from C6_rejected_upload_stays_queued[OF uploader_full_state(1) a b c,
        of "''trace-1''" "''''" 7 "\<lambda>k. mkPenv ''ref''"]
  show ?thesis by (simp add: d)
qed

text \<open>What does hold: every task that was queued or running when \<open>Shutdown\<close> was
  called, and has a status entry, is completed when it returns; and afterwards a
  non-blocking upload of uncached content panics on the closed channel.\<close>

lemma Shutdown_completes_accepted:
  assumes "\<not> chan_closed (queue mu)"
    and "task \<in> set (running mu @ chan_buf (queue mu))"
    and "uploads mu (media_ID (task_Media task)) = Some st"
  shows "\<exists>mu'. Shutdown mu envs = Inr mu'
            \<and> status_of mu' (media_ID (task_Media task)) = Some ''completed''"
proof -
  from Shutdown_status[OF assms(1), of envs]
  obtain mu' where m: "Shutdown mu envs = Inr mu'"
    "\<forall>mediaID. status_of mu' mediaID
           = (if mediaID \<in> task_ids (running mu @ chan_buf (queue mu))
              then completed_if_registered mu mediaID else status_of mu mediaID)"
    by blast
  have "media_ID (task_Media task) \<in> task_ids (running mu @ chan_buf (queue mu))"
    using assms(2) unfolding task_ids_def by (metis (no_types, lifting) image_eqI set_map)
  with m assms(3) show ?thesis
    by (auto simp: completed_if_registered_def)
qed

lemma Upload_after_Shutdown_panics:
  assumes "Shutdown mu envs = Inr mu'" and "dedupCache mu' (media_Hash media) = None"
  shows "fst (Upload mu' media t s now) = Inl PanicSendOnClosedChannel"
proof -
  have "\<not> chan_closed (queue mu)"
    using assms(1) by (auto simp: Shutdown_def split: if_splits)
  from Shutdown_status[OF this, of envs] assms(1) have "chan_closed (queue mu')" by auto
  with assms(2) show ?thesis by (simp add: Upload_cases)
qed


end
